theory Spec2Isabelle
  imports Main
begin

section \<open>Python values, exceptions and observable effects\<close>

text \<open>
  The program is \<^verbatim>\<open>backend/app.py\<close>. Its own code is a thin pipeline around external
  services (the HTTP lookup, the vector index, the agent executor and the generation
  chain). Each external call is a field of an environment record that says what the call
  returns or raises; the program's own control flow, its \<^verbatim>\<open>try\<close>/\<^verbatim>\<open>except\<close> blocks and its
  log lines are modelled as written.

  Strings are \<open>string\<close>. A \<open>char\<close> stands for one code point below 256.
\<close>

text \<open>
  The exception classes the program names in an \<^verbatim>\<open>except\<close> clause or that its own
  statements can raise. \<open>Exception\<close> is the base class; an exception whose class is
  \<open>Exception\<close> itself stands for any error that derives from none of the classes below
  (a provider's API error, a runtime error).
\<close>

datatype exn_class =
  Exception
| ValueError
| TypeError
| KeyError
| IndexError
| AttributeError
| OSError
| RequestException
| JSONDecodeError

text \<open>An exception object: its class and the text that \<^verbatim>\<open>str(e)\<close> yields.\<close>

datatype exn = Exn (exn_cls: exn_class) (exn_str: string)

text \<open>
  The subclass relation of Python among these classes: \<^verbatim>\<open>json.JSONDecodeError\<close> derives
  from \<^verbatim>\<open>ValueError\<close>, \<^verbatim>\<open>requests.RequestException\<close> from \<^verbatim>\<open>OSError\<close>, and every
  class from \<^verbatim>\<open>Exception\<close>.
\<close>

definition issubclass :: "exn_class \<Rightarrow> exn_class \<Rightarrow> bool" where
  "issubclass c d =
     (c = d \<or> d = Exception \<or> (c = JSONDecodeError \<and> d = ValueError)
      \<or> (c = RequestException \<and> d = OSError))"

text \<open>\<^verbatim>\<open>except (C1, ..., Cn)\<close> handles \<open>e\<close> when \<open>e\<close> is an instance of one of the classes.\<close>

fun isinstance :: "exn \<Rightarrow> exn_class list \<Rightarrow> bool" where
  "isinstance e [] = False"
| "isinstance e (d # ds) = (issubclass (exn_cls e) d \<or> isinstance e ds)"

text \<open>
  A value decoded from JSON. Numbers are integers here; a JSON number with a fraction
  is outside the model.
\<close>

datatype pyval =
  PNone
| PBool bool
| PInt int
| PStr string
| PList "pyval list"
| PDict "(string \<times> pyval) list"

text \<open>Python's truth value, as \<^verbatim>\<open>x or y\<close> tests it.\<close>

fun truthy :: "pyval \<Rightarrow> bool" where
  "truthy PNone = False"
| "truthy (PBool b) = b"
| "truthy (PInt n) = (n \<noteq> 0)"
| "truthy (PStr s) = (s \<noteq> [])"
| "truthy (PList xs) = (xs \<noteq> [])"
| "truthy (PDict kvs) = (kvs \<noteq> [])"

fun type_name :: "pyval \<Rightarrow> string" where
  "type_name PNone = ''NoneType''"
| "type_name (PBool b) = ''bool''"
| "type_name (PInt n) = ''int''"
| "type_name (PStr s) = ''str''"
| "type_name (PList xs) = ''list''"
| "type_name (PDict kvs) = ''dict''"

text \<open>
  \<^verbatim>\<open>data.get(key)\<close>: only a dict has the method; on any other value the attribute access
  raises \<^verbatim>\<open>AttributeError\<close>. A missing key gives \<^verbatim>\<open>None\<close>. The list holds the items of
  the dict, whose keys are distinct.
\<close>

definition quoted :: "string \<Rightarrow> string" where
  "quoted s = [CHR 0x27] @ s @ [CHR 0x27]"

fun py_get :: "pyval \<Rightarrow> string \<Rightarrow> exn + pyval" where
  "py_get (PDict kvs) key = (case map_of kvs key of None \<Rightarrow> Inr PNone | Some v \<Rightarrow> Inr v)"
| "py_get v key =
     Inl (Exn AttributeError
       (quoted (type_name v) @ '' object has no attribute '' @ quoted ''get''))"

text \<open>
  What a run leaves behind, in order: the log lines (by level, with the formatted
  message) and the calls to external services.
\<close>

datatype event =
  LogInfo string
| LogWarning string
| LogError string
| HttpGet string nat
| LoadJson string
| FaissFromTexts "string list"
| SimilaritySearch string nat
| ChainRun "(string \<times> string) list"
| AgentRun string

text \<open>
  A computation either raises (\<open>Inl\<close>) or returns (\<open>Inr\<close>), and leaves its events.
\<close>

type_synonym 'a result = "(exn + 'a) \<times> event list"

definition ret :: "'a \<Rightarrow> 'a result" where
  "ret x = (Inr x, [])"

definition raise :: "exn \<Rightarrow> 'a result" where
  "raise e = (Inl e, [])"

text \<open>A call to an external service: the call is recorded, then its outcome takes effect.\<close>

definition call :: "event \<Rightarrow> exn + 'a \<Rightarrow> 'a result" where
  "call ev outcome = (outcome, [ev])"

definition log_info :: "string \<Rightarrow> unit result" where
  "log_info msg = (Inr (), [LogInfo msg])"

definition log_warning :: "string \<Rightarrow> unit result" where
  "log_warning msg = (Inr (), [LogWarning msg])"

definition log_error :: "string \<Rightarrow> unit result" where
  "log_error msg = (Inr (), [LogError msg])"

text \<open>Sequencing: an exception in the first part skips the rest.\<close>

definition bind :: "'a result \<Rightarrow> ('a \<Rightarrow> 'b result) \<Rightarrow> 'b result" where
  "bind m f =
     (case m of
        (Inl e, evs) \<Rightarrow> (Inl e, evs)
      | (Inr x, evs) \<Rightarrow> (case f x of (r, evs') \<Rightarrow> (r, evs @ evs')))"

text \<open>
  \<^verbatim>\<open>try: body  except (classes) as e: handler\<close>. An exception of another class leaves the
  block unhandled; an exception raised by the handler itself propagates.
\<close>

definition try_except :: "'a result \<Rightarrow> exn_class list \<Rightarrow> (exn \<Rightarrow> 'a result) \<Rightarrow> 'a result" where
  "try_except body classes handler =
     (case body of
        (Inr x, evs) \<Rightarrow> (Inr x, evs)
      | (Inl e, evs) \<Rightarrow>
          if isinstance e classes
          then (case handler e of (r, evs') \<Rightarrow> (r, evs @ evs'))
          else (Inl e, evs))"

section \<open>The environment: outcomes of the external calls\<close>

text \<open>
  A response object of the HTTP library, by what its two methods do:
  \<^verbatim>\<open>raise_for_status()\<close> raises or not, \<^verbatim>\<open>json()\<close> raises or returns the decoded body.
\<close>

record http_response =
  raise_for_status :: "exn option"
  json :: "exn + pyval"

record env =
  requests_get :: "string \<Rightarrow> nat \<Rightarrow> exn + http_response"
  json_load :: "string \<Rightarrow> exn + string list"
  faiss_from_texts :: "string list \<Rightarrow> exn option"
  similarity_search :: "string list \<Rightarrow> string \<Rightarrow> nat \<Rightarrow> exn + string list"
  chain_run :: "(string \<times> string) list \<Rightarrow> exn + string"
  agent_run :: "string \<Rightarrow> exn + string"
  getenv :: "string \<Rightarrow> string option"

section \<open>WebSearchTool\<close>

definition fallback_text :: string where
  "fallback_text = ''Unable to fetch latest information. Using cached data instead.''"

definition unavailable_text :: string where
  "unavailable_text = ''Search functionality temporarily unavailable.''"

text \<open>\<^verbatim>\<open>WebSearchTool._fallback_search\<close>\<close>

definition WebSearchTool_fallback_search :: "string \<Rightarrow> pyval result" where
  "WebSearchTool_fallback_search query =
     try_except
       (ret (PStr fallback_text))
       [RequestException, JSONDecodeError, KeyError]
       (\<lambda>e. bind (log_error (''Fallback search error: '' @ exn_str e))
              (\<lambda>_. ret (PStr unavailable_text)))"

text \<open>\<^verbatim>\<open>WebSearchTool._run\<close>\<close>

definition search_url :: "string \<Rightarrow> string" where
  "search_url query = ''https://api.duckduckgo.com/?q='' @ query @ ''&format=json''"

definition WebSearchTool_run :: "env \<Rightarrow> string \<Rightarrow> pyval result" where
  "WebSearchTool_run env query =
     try_except
       (bind (call (HttpGet (search_url query) 10) (requests_get env (search_url query) 10))
         (\<lambda>response.
       bind (case raise_for_status response of Some e \<Rightarrow> raise e | None \<Rightarrow> ret ())
         (\<lambda>_.
       bind (json response, [])
         (\<lambda>data.
       bind (py_get data ''AbstractText'', [])
         (\<lambda>abstract.
       if truthy abstract then ret abstract else WebSearchTool_fallback_search query)))))
       [RequestException, JSONDecodeError, KeyError]
       (\<lambda>e. bind (log_error (''Web search error: '' @ exn_str e))
              (\<lambda>_. WebSearchTool_fallback_search query))"

text \<open>\<^verbatim>\<open>WebSearchTool.search\<close>\<close>

definition WebSearchTool_search :: "env \<Rightarrow> string \<Rightarrow> pyval result" where
  "WebSearchTool_search env query = WebSearchTool_run env query"

text \<open>
  \<^verbatim>\<open>WebSearchTool._arun\<close>; \<^verbatim>\<open>NotImplementedError\<close> derives from none of the classes that
  the program handles by name.
\<close>

definition WebSearchTool_arun :: "string \<Rightarrow> unit result" where
  "WebSearchTool_arun query = raise (Exn Exception ''This tool does not support async.'')"

section \<open>VectorDB\<close>

text \<open>
  The index object is modelled by the texts it was built from; \<open>db\<close> is \<^verbatim>\<open>None\<close> until
  \<^verbatim>\<open>initialize\<close> has run. What a similarity search returns is the environment's.
\<close>

record VectorDB =
  db :: "string list option"

text \<open>\<^verbatim>\<open>VectorDB.__init__\<close>\<close>

definition VectorDB_init :: VectorDB where
  "VectorDB_init = \<lparr>db = None\<rparr>"

text \<open>\<^verbatim>\<open>VectorDB._get_default_texts\<close>\<close>

definition VectorDB_get_default_texts :: "string list" where
  "VectorDB_get_default_texts =
     [''AI helps in personalized marketing campaigns and customer segmentation.'',
      ''Latest trends in AI for digital marketing and social media optimization.'',
      ''Data-driven marketing strategies using machine learning algorithms.'',
      ''Content optimization using natural language processing.'',
      ''Marketing automation and customer journey mapping with AI.'']"

text \<open>\<^verbatim>\<open>VectorDB._load_texts\<close>\<close>

definition VectorDB_load_texts :: "env \<Rightarrow> string \<Rightarrow> string list result" where
  "VectorDB_load_texts env file_path = call (LoadJson file_path) (json_load env file_path)"

text \<open>
  \<^verbatim>\<open>VectorDB.initialize\<close>. A path object is always true, so \<^verbatim>\<open>if texts_file\<close> tests for
  \<^verbatim>\<open>None\<close>. The texts are loaded outside the \<^verbatim>\<open>try\<close>; the handler logs and re-raises.
\<close>

definition VectorDB_initialize :: "env \<Rightarrow> VectorDB \<Rightarrow> string option \<Rightarrow> VectorDB result" where
  "VectorDB_initialize env self texts_file =
     bind (case texts_file of
             Some file_path \<Rightarrow> VectorDB_load_texts env file_path
           | None \<Rightarrow> ret VectorDB_get_default_texts)
       (\<lambda>texts.
     try_except
       (bind (call (FaissFromTexts texts)
                (case faiss_from_texts env texts of Some e \<Rightarrow> Inl e | None \<Rightarrow> Inr texts))
          (\<lambda>index.
        bind (log_info ''Vector database initialized successfully'')
          (\<lambda>_. ret (self\<lparr>db := Some index\<rparr>))))
       [Exception]
       (\<lambda>e. bind (log_error (''Vector database initialization error: '' @ exn_str e))
              (\<lambda>_. raise e)))"

section \<open>PostGenerator\<close>

text \<open>Python's \<^verbatim>\<open>sep.join(xs)\<close>.\<close>

fun join :: "string \<Rightarrow> string list \<Rightarrow> string" where
  "join sep [] = []"
| "join sep [x] = x"
| "join sep (x # y # ys) = x @ sep @ join sep (y # ys)"

text \<open>
  Python's \<^verbatim>\<open>str.isspace\<close> on one character, for the code points below 256, and
  \<^verbatim>\<open>str.strip()\<close>, which removes such characters from both ends.
\<close>

definition isspace :: "char \<Rightarrow> bool" where
  "isspace c =
     (c \<in> set [CHR 0x09, CHR 0x0A, CHR 0x0B, CHR 0x0C, CHR 0x0D, CHR 0x1C, CHR 0x1D,
                CHR 0x1E, CHR 0x1F, CHR 0x20, CHR 0x85, CHR 0xA0])"

definition strip :: "string \<Rightarrow> string" where
  "strip s = rev (dropWhile isspace (rev (dropWhile isspace s)))"

record PostGenerator =
  pg_vector_db :: VectorDB

text \<open>
  \<^verbatim>\<open>PostGenerator.generate\<close>. The chain holds the prompt template and fills it from the
  dict it is run with; the dict is recorded with the call.
\<close>

definition PostGenerator_generate ::
  "env \<Rightarrow> PostGenerator \<Rightarrow> string \<Rightarrow> string \<Rightarrow> string \<Rightarrow> string \<Rightarrow> string result" where
  "PostGenerator_generate env self topic tone audience latest_info =
     bind (case db (pg_vector_db self) of
             None \<Rightarrow> raise (Exn AttributeError
                       (quoted ''NoneType'' @ '' object has no attribute ''
                        @ quoted ''similarity_search''))
           | Some index \<Rightarrow>
               call (SimilaritySearch topic 3) (similarity_search env index topic 3))
       (\<lambda>vector_results.
     bind (ret (join '' '' vector_results))
       (\<lambda>context.
     bind (call (ChainRun [(''topic'', topic), (''tone'', tone), (''audience'', audience),
                           (''latest_info'', latest_info), (''context'', context)])
             (chain_run env [(''topic'', topic), (''tone'', tone), (''audience'', audience),
                             (''latest_info'', latest_info), (''context'', context)]))
       (\<lambda>post_content. ret (strip post_content))))"

section \<open>LinkedInPostGenerator\<close>

record LinkedInPostGenerator =
  vector_db :: VectorDB
  post_generator :: PostGenerator

text \<open>
  \<^verbatim>\<open>LinkedInPostGenerator.__init__\<close>. The clients, the memory and the agent are handles
  to external services; building them is taken to succeed. The index is built here.
\<close>

definition LinkedInPostGenerator_init :: "env \<Rightarrow> LinkedInPostGenerator result" where
  "LinkedInPostGenerator_init env =
     bind (VectorDB_initialize env VectorDB_init None)
       (\<lambda>vdb. ret \<lparr>vector_db = vdb, post_generator = \<lparr>pg_vector_db = vdb\<rparr>\<rparr>)"

text \<open>\<^verbatim>\<open>LinkedInPostGenerator._get_latest_info\<close>\<close>

definition agent_fallback :: "string \<Rightarrow> string" where
  "agent_fallback topic =
     ''Based on industry trends and analysis, here are key insights about '' @ topic @ ''...''"

definition LinkedInPostGenerator_get_latest_info ::
  "env \<Rightarrow> LinkedInPostGenerator \<Rightarrow> string \<Rightarrow> string result" where
  "LinkedInPostGenerator_get_latest_info env self topic =
     try_except
       (call (AgentRun (''Find recent updates or insights on '' @ topic))
          (agent_run env (''Find recent updates or insights on '' @ topic)))
       [ValueError, TypeError, KeyError]
       (\<lambda>e. bind (log_warning (''Agent execution error: '' @ exn_str e))
              (\<lambda>_. ret (agent_fallback topic)))"

text \<open>\<^verbatim>\<open>LinkedInPostGenerator.generate_post\<close>\<close>

definition LinkedInPostGenerator_generate_post ::
  "env \<Rightarrow> LinkedInPostGenerator \<Rightarrow> string \<Rightarrow> string \<Rightarrow> string \<Rightarrow> string result" where
  "LinkedInPostGenerator_generate_post env self topic tone audience =
     try_except
       (bind (LinkedInPostGenerator_get_latest_info env self topic)
          (\<lambda>latest_info.
             PostGenerator_generate env (post_generator self) topic tone audience latest_info))
       [ValueError, TypeError, KeyError]
       (\<lambda>e. bind (log_error (''Post generation error: '' @ exn_str e))
              (\<lambda>_. raise e))"

section \<open>The route\<close>

text \<open>
  Python's \<^verbatim>\<open>str()\<close> and \<^verbatim>\<open>repr()\<close> on a decoded value, which is what the formatting of
  an f-string and of the prompt template makes of it. The \<^verbatim>\<open>repr\<close> of a string takes
  single quotes, unless the string has a single quote and no double quote; it escapes the
  quote it took and the backslash, writes tab, line feed and carriage return as
  \<^verbatim>\<open>\t\<close>, \<^verbatim>\<open>\n\<close>, \<^verbatim>\<open>\r\<close>, and any other character that is not printable as
  \<^verbatim>\<open>\xhh\<close>.
\<close>

definition digit :: "nat \<Rightarrow> char" where
  "digit d = ''0123456789abcdef'' ! d"

fun nat_str :: "nat \<Rightarrow> string" where
  "nat_str n = (if n < 10 then [digit n] else nat_str (n div 10) @ [digit (n mod 10)])"

definition int_str :: "int \<Rightarrow> string" where
  "int_str i = (if i < 0 then ''-'' @ nat_str (nat (- i)) else nat_str (nat i))"

definition hex_escape :: "char \<Rightarrow> string" where
  "hex_escape c = [CHR 0x5C, CHR ''x'', digit (of_char c div 16), digit (of_char c mod 16)]"

definition isprintable :: "char \<Rightarrow> bool" where
  "isprintable c =
     ((32::nat) \<le> of_char c \<and> (of_char c :: nat) < 127
      \<or> (160::nat) < of_char c \<and> c \<noteq> CHR 0xAD)"

definition repr_char :: "char \<Rightarrow> char \<Rightarrow> string" where
  "repr_char quote c =
     (if c = quote \<or> c = CHR 0x5C then [CHR 0x5C, c]
      else if c = CHR 0x09 then [CHR 0x5C, CHR ''t'']
      else if c = CHR 0x0A then [CHR 0x5C, CHR ''n'']
      else if c = CHR 0x0D then [CHR 0x5C, CHR ''r'']
      else if isprintable c then [c]
      else hex_escape c)"

definition str_repr :: "string \<Rightarrow> string" where
  "str_repr s =
     (let quote = (if CHR 0x27 \<in> set s \<and> CHR 0x22 \<notin> set s then CHR 0x22 else CHR 0x27)
      in [quote] @ concat (map (repr_char quote) s) @ [quote])"

fun py_repr :: "pyval \<Rightarrow> string" where
  "py_repr PNone = ''None''"
| "py_repr (PBool b) = (if b then ''True'' else ''False'')"
| "py_repr (PInt i) = int_str i"
| "py_repr (PStr s) = str_repr s"
| "py_repr (PList xs) = ''['' @ join '', '' (map py_repr xs) @ '']''"
| "py_repr (PDict kvs) =
     ''{'' @ join '', '' (map (\<lambda>kv. str_repr (fst kv) @ '': '' @ py_repr (snd kv)) kvs) @ ''}''"

fun py_str :: "pyval \<Rightarrow> string" where
  "py_str (PStr s) = s"
| "py_str v = py_repr v"

text \<open>
  A request: its method, and what \<^verbatim>\<open>request.get_json()\<close> does on it, which is to raise or
  to return the decoded body, an object or any other value. A response: the JSON object
  sent and the status.
\<close>

record request =
  request_method :: string
  get_json :: "exn + pyval"

record response =
  body :: "(string \<times> string) list"
  status :: nat

definition required_text :: string where
  "required_text = ''Topic, tone, and audience are required''"

text \<open>
  The route \<^verbatim>\<open>generate_post\<close> of \<^verbatim>\<open>/generate-post\<close>. The three fields are read with
  \<^verbatim>\<open>data.get\<close>, which raises on a body that is not an object and gives \<^verbatim>\<open>None\<close> for a
  field that is absent; \<^verbatim>\<open>not x\<close> is true of every value that is not true, such as
  \<^verbatim>\<open>None\<close> and the empty string. The methods of the generator are declared on strings: a
  field that has passed the test is handed on as its text, which for a string is the
  string itself.
\<close>

definition generate_post :: "env \<Rightarrow> request \<Rightarrow> response result" where
  "generate_post env req =
     (if request_method req = ''OPTIONS'' then ret \<lparr>body = [(''status'', ''ok'')], status = 200\<rparr>
      else
        try_except
          (bind (get_json req, [])
             (\<lambda>data.
           bind (py_get data ''topic'', [])
             (\<lambda>topic.
           bind (py_get data ''tone'', [])
             (\<lambda>tone.
           bind (py_get data ''audience'', [])
             (\<lambda>audience.
           if \<not> truthy topic \<or> \<not> truthy tone \<or> \<not> truthy audience
           then raise (Exn ValueError required_text)
           else
             bind (LinkedInPostGenerator_init env)
               (\<lambda>generator.
             bind (LinkedInPostGenerator_generate_post env generator
                     (py_str topic) (py_str tone) (py_str audience))
               (\<lambda>post.
             ret \<lparr>body = [(''status'', ''success''), (''post'', post)], status = 200\<rparr>)))))))
          [ValueError, TypeError, KeyError]
          (\<lambda>e. bind (log_error (''API error: '' @ exn_str e))
                 (\<lambda>_. ret \<lparr>body = [(''status'', ''error''), (''message'', exn_str e)],
                            status = 500\<rparr>)))"







text \<open>The number of times a trace runs the agent, and the generation chain.\<close>

fun agent_runs :: "event list \<Rightarrow> nat" where
  "agent_runs [] = 0"
| "agent_runs (AgentRun prompt # evs) = Suc (agent_runs evs)"
| "agent_runs (ev # evs) = agent_runs evs"

fun chain_runs :: "event list \<Rightarrow> nat" where
  "chain_runs [] = 0"
| "chain_runs (ChainRun inputs # evs) = Suc (chain_runs evs)"
| "chain_runs (ev # evs) = chain_runs evs"

section \<open>The agent's tool-use loop\<close>




datatype outcome = Answer string | CapReached | Raised exn





section \<open>Concrete environments and requests\<close>

text \<open>
  An environment in which every external service answers: the lookup service sends an
  abstract, the index is built, the search returns the first \<open>k\<close> texts of the index, the
  agent and the generation model return text, and the API key is set.
\<close>

definition env_ok :: env where
  "env_ok =
     \<lparr>requests_get = (\<lambda>url timeout.
        Inr \<lparr>raise_for_status = None,
             json = Inr (PDict [(''AbstractText'', PStr ''AI spending rose in 2024.'')])\<rparr>),
      json_load = (\<lambda>file_path. Inr []),
      faiss_from_texts = (\<lambda>texts. None),
      similarity_search = (\<lambda>index query k. Inr (take k index)),
      chain_run = (\<lambda>inputs. Inr '' AI is reshaping marketing. #AI ''),
      agent_run = (\<lambda>prompt. Inr ''Marketers adopt AI assistants.''),
      getenv = (\<lambda>name. Some ''secret'')\<rparr>"

text \<open>The agent fails with a value error (say, output that cannot be parsed).\<close>

definition env_agent_value_error :: env where
  "env_agent_value_error =
     env_ok\<lparr>agent_run := (\<lambda>prompt. Inl (Exn ValueError ''Could not parse LLM output''))\<rparr>"

text \<open>The agent fails with an error of the provider that is no value, type or key error.\<close>

definition env_agent_provider_error :: env where
  "env_agent_provider_error =
     env_ok\<lparr>agent_run := (\<lambda>prompt. Inl (Exn Exception ''503 Service Unavailable''))\<rparr>"

text \<open>The generation model returns only whitespace.\<close>

definition env_blank_output :: env where
  "env_blank_output = env_ok\<lparr>chain_run := (\<lambda>inputs. Inr [CHR 0x20, CHR 0x0A, CHR 0x20])\<rparr>"

text \<open>The generation chain fails with a value error that carries the provider's text.\<close>

definition env_chain_value_error :: env where
  "env_chain_value_error =
     env_ok\<lparr>chain_run := (\<lambda>inputs.
        Inl (Exn ValueError ''Gemini returned no candidates: finish_reason SAFETY''))\<rparr>"

text \<open>The generation chain fails with an error of the provider of another kind.\<close>

definition env_chain_provider_error :: env where
  "env_chain_provider_error =
     env_ok\<lparr>chain_run := (\<lambda>inputs. Inl (Exn Exception ''500 Internal error''))\<rparr>"

text \<open>The lookup times out.\<close>

definition env_lookup_timeout :: env where
  "env_lookup_timeout =
     env_ok\<lparr>requests_get := (\<lambda>url timeout. Inl (Exn RequestException ''Read timed out.''))\<rparr>"

text \<open>The lookup service answers with a JSON array instead of an object.\<close>

definition env_lookup_array :: env where
  "env_lookup_array =
     env_ok\<lparr>requests_get := (\<lambda>url timeout.
        Inr \<lparr>raise_for_status = None, json = Inr (PList [])\<rparr>)\<rparr>"

text \<open>The lookup service answers with an object that has no abstract.\<close>

definition env_lookup_no_abstract :: env where
  "env_lookup_no_abstract =
     env_ok\<lparr>requests_get := (\<lambda>url timeout.
        Inr \<lparr>raise_for_status = None, json = Inr (PDict [(''Heading'', PStr ''AI'')])\<rparr>)\<rparr>"

text \<open>
  The lookup service answers with an abstract that reads like the second fallback
  sentence.
\<close>

definition env_lookup_abstract_unavailable :: env where
  "env_lookup_abstract_unavailable =
     env_ok\<lparr>requests_get := (\<lambda>url timeout.
        Inr \<lparr>raise_for_status = None,
             json = Inr (PDict [(''AbstractText'',
                      PStr ''Search functionality temporarily unavailable.'')])\<rparr>)\<rparr>"

text \<open>The index cannot be built: the embedding step fails with a value error.\<close>

definition env_index_value_error :: env where
  "env_index_value_error =
     env_ok\<lparr>faiss_from_texts := (\<lambda>texts.
        Some (Exn ValueError ''Embedding model sentence-transformers/all-MiniLM-L6-v2 failed''))\<rparr>"

definition req_ok :: request where
  "req_ok =
     \<lparr>request_method = ''POST'',
      get_json = Inr (PDict [(''topic'', PStr ''AI in marketing''),
                             (''tone'', PStr ''professional''),
                             (''audience'', PStr ''marketers'')])\<rparr>"

definition req_empty_topic :: request where
  "req_empty_topic =
     \<lparr>request_method = ''POST'',
      get_json = Inr (PDict [(''topic'', PStr []), (''tone'', PStr ''professional''),
                             (''audience'', PStr ''marketers'')])\<rparr>"

definition req_no_tone :: request where
  "req_no_tone =
     \<lparr>request_method = ''POST'',
      get_json = Inr (PDict [(''topic'', PStr ''AI in marketing''),
                             (''audience'', PStr ''marketers'')])\<rparr>"

text \<open>
  A request whose body is a JSON array, one whose body is no JSON, and a preflight
  request, which has no body.
\<close>

definition req_array_body :: request where
  "req_array_body = \<lparr>request_method = ''POST'', get_json = Inr (PList [])\<rparr>"

definition req_bad_json :: request where
  "req_bad_json =
     \<lparr>request_method = ''POST'',
      get_json = Inl (Exn Exception ''400 Bad Request: Failed to decode JSON object'')\<rparr>"

definition req_preflight :: request where
  "req_preflight =
     \<lparr>request_method = ''OPTIONS'',
      get_json = Inl (Exn Exception ''415 Unsupported Media Type'')\<rparr>"

text \<open>A generator as \<^verbatim>\<open>LinkedInPostGenerator()\<close> builds it when the index is built.\<close>

definition generator_ok :: LinkedInPostGenerator where
  "generator_ok =
     \<lparr>vector_db = \<lparr>db = Some VectorDB_get_default_texts\<rparr>,
      post_generator = \<lparr>pg_vector_db = \<lparr>db = Some VectorDB_get_default_texts\<rparr>\<rparr>\<rparr>"


section \<open>Unfolding the model\<close>

lemmas res_defs = ret_def raise_def call_def log_info_def log_warning_def log_error_def
  bind_def try_except_def

lemmas env_defs = env_ok_def env_agent_value_error_def env_agent_provider_error_def
  env_blank_output_def env_chain_value_error_def env_chain_provider_error_def
  env_lookup_timeout_def env_lookup_array_def env_lookup_no_abstract_def
  env_lookup_abstract_unavailable_def env_index_value_error_def

lemmas pipeline_defs = LinkedInPostGenerator_generate_post_def
  LinkedInPostGenerator_get_latest_info_def PostGenerator_generate_def
  LinkedInPostGenerator_init_def VectorDB_initialize_def VectorDB_init_def
  VectorDB_get_default_texts_def generator_ok_def agent_fallback_def strip_def isspace_def
  issubclass_def res_defs env_defs

section \<open>The paths through a web search\<close>

lemma fallback_search_eq:
  "WebSearchTool_fallback_search query = (Inr (PStr fallback_text), [])"
  by (simp add: WebSearchTool_fallback_search_def res_defs)

lemma run_request_raises:
  assumes "requests_get env (search_url query) 10 = Inl e"
  shows "WebSearchTool_run env query =
     (if isinstance e [RequestException, JSONDecodeError, KeyError]
      then (Inr (PStr fallback_text),
            [HttpGet (search_url query) 10, LogError (''Web search error: '' @ exn_str e)])
      else (Inl e, [HttpGet (search_url query) 10]))"
  using assms by (simp add: WebSearchTool_run_def fallback_search_eq res_defs)

lemma run_status_raises:
  assumes "requests_get env (search_url query) 10 = Inr response"
    and "raise_for_status response = Some e"
  shows "WebSearchTool_run env query =
     (if isinstance e [RequestException, JSONDecodeError, KeyError]
      then (Inr (PStr fallback_text),
            [HttpGet (search_url query) 10, LogError (''Web search error: '' @ exn_str e)])
      else (Inl e, [HttpGet (search_url query) 10]))"
  using assms by (simp add: WebSearchTool_run_def fallback_search_eq res_defs)

lemma run_json_raises:
  assumes "requests_get env (search_url query) 10 = Inr response"
    and "raise_for_status response = None"
    and "json response = Inl e"
  shows "WebSearchTool_run env query =
     (if isinstance e [RequestException, JSONDecodeError, KeyError]
      then (Inr (PStr fallback_text),
            [HttpGet (search_url query) 10, LogError (''Web search error: '' @ exn_str e)])
      else (Inl e, [HttpGet (search_url query) 10]))"
  using assms by (simp add: WebSearchTool_run_def fallback_search_eq res_defs)

lemma run_not_dict:
  assumes "requests_get env (search_url query) 10 = Inr response"
    and "raise_for_status response = None"
    and "json response = Inr data"
    and "py_get data ''AbstractText'' = Inl e"
  shows "WebSearchTool_run env query = (Inl e, [HttpGet (search_url query) 10])"
proof -
  from assms(4) have "exn_cls e = AttributeError"
    by (cases data) (auto split: option.splits)
  then have "\<not> isinstance e [RequestException, JSONDecodeError, KeyError]"
    by (simp add: issubclass_def)
  with assms show ?thesis
    by (simp add: WebSearchTool_run_def fallback_search_eq res_defs)
qed

lemma run_abstract:
  assumes "requests_get env (search_url query) 10 = Inr response"
    and "raise_for_status response = None"
    and "json response = Inr data"
    and "py_get data ''AbstractText'' = Inr abstract"
  shows "WebSearchTool_run env query =
     (Inr (if truthy abstract then abstract else PStr fallback_text),
      [HttpGet (search_url query) 10])"
  using assms by (simp add: WebSearchTool_run_def fallback_search_eq res_defs)

lemma run_cases:
  obtains (request_raises) e where "requests_get env (search_url query) 10 = Inl e"
  | (status_raises) response e where "requests_get env (search_url query) 10 = Inr response"
      "raise_for_status response = Some e"
  | (json_raises) response e where "requests_get env (search_url query) 10 = Inr response"
      "raise_for_status response = None" "json response = Inl e"
  | (not_dict) response data e where "requests_get env (search_url query) 10 = Inr response"
      "raise_for_status response = None" "json response = Inr data"
      "py_get data ''AbstractText'' = Inl e"
  | (abstract) response data abstract where "requests_get env (search_url query) 10 = Inr response"
      "raise_for_status response = None" "json response = Inr data"
      "py_get data ''AbstractText'' = Inr abstract"
proof (cases "requests_get env (search_url query) 10")
  case (Inl e)
  then show ?thesis by (rule request_raises)
next
  case (Inr response)
  note r = this
  show ?thesis
  proof (cases "raise_for_status response")
    case (Some e)
    with r show ?thesis by (rule status_raises)
  next
    case None
    note n = this
    show ?thesis
    proof (cases "json response")
      case (Inl e)
      with r n show ?thesis by (rule json_raises)
    next
      case (Inr data)
      note d = this
      show ?thesis
      proof (cases "py_get data ''AbstractText''")
        case (Inl e)
        with r n d show ?thesis by (rule not_dict)
      next
        case (Inr abstract)
        with r n d show ?thesis by (rule abstract)
      qed
    qed
  qed
qed

lemma fallback_ne_unavailable: "fallback_text \<noteq> unavailable_text"
  by (simp add: fallback_text_def unavailable_text_def)

section \<open>The second fallback sentence\<close>

text \<open>
  Claim C10, as amended. The \<^verbatim>\<open>try\<close> body of \<^verbatim>\<open>_fallback_search\<close> is a constant return, so
  its handler is never entered: for every query \<^verbatim>\<open>_fallback_search\<close> returns the first
  fallback sentence and logs nothing. The second sentence is never produced as a fallback;
  \<^verbatim>\<open>search\<close> returns that text only when the lookup service itself sent it as the
  abstract of its answer.
\<close>

theorem fallback_search_always_first_sentence:
  "WebSearchTool_fallback_search query = (Inr (PStr fallback_text), [])
   \<and> fallback_text = ''Unable to fetch latest information. Using cached data instead.''
   \<and> (fst (WebSearchTool_search env query) = Inr (PStr unavailable_text) \<longrightarrow>
        (\<exists>response data.
           requests_get env (search_url query) 10 = Inr response
           \<and> json response = Inr data
           \<and> py_get data ''AbstractText'' = Inr (PStr unavailable_text)))"
proof (intro conjI impI)
  show "WebSearchTool_fallback_search query = (Inr (PStr fallback_text), [])"
    by (rule fallback_search_eq)
  show "fallback_text = ''Unable to fetch latest information. Using cached data instead.''"
    by (simp add: fallback_text_def)
  assume h: "fst (WebSearchTool_search env query) = Inr (PStr unavailable_text)"
  show "\<exists>response data.
           requests_get env (search_url query) 10 = Inr response
           \<and> json response = Inr data
           \<and> py_get data ''AbstractText'' = Inr (PStr unavailable_text)"
  proof (cases rule: run_cases [of env query])
    case (request_raises e)
    with h fallback_ne_unavailable show ?thesis
      by (simp add: WebSearchTool_search_def run_request_raises split: if_splits)
  next
    case (status_raises response e)
    with h fallback_ne_unavailable show ?thesis
      by (simp add: WebSearchTool_search_def run_status_raises split: if_splits)
  next
    case (json_raises response e)
    with h fallback_ne_unavailable show ?thesis
      by (simp add: WebSearchTool_search_def run_json_raises split: if_splits)
  next
    case (not_dict response data e)
    with h show ?thesis
      by (simp add: WebSearchTool_search_def run_not_dict)
  next
    case (abstract response data abstract)
    with h fallback_ne_unavailable show ?thesis
      by (simp add: WebSearchTool_search_def run_abstract split: if_splits)
  qed
qed

theorem search_unavailable_counterexample:
  "WebSearchTool_search env_lookup_abstract_unavailable ''AI in marketing'' =
     (Inr (PStr ''Search functionality temporarily unavailable.''),
      [HttpGet ''https://api.duckduckgo.com/?q=AI in marketing&format=json'' 10])"
  by (simp add: WebSearchTool_search_def WebSearchTool_run_def WebSearchTool_fallback_search_def
      env_lookup_abstract_unavailable_def env_ok_def search_url_def res_defs)


section \<open>The outcomes of a web search\<close>

text \<open>
  Claim C5, as amended. For every query, \<^verbatim>\<open>search\<close> sends one lookup. When the request,
  the status check or the decoding of the body raises a request error, a JSON decoding
  error or a key error, the error is logged and the first fallback sentence is returned.
  When the body decodes to an object, the result is its abstract if that is present and
  true, and the first fallback sentence otherwise, with no log line. An error that
  \<^verbatim>\<open>search\<close> does raise is of none of the three handled classes.
\<close>

theorem search_live_or_fallback:
  "(\<forall>e. requests_get env (search_url query) 10 = Inl e \<longrightarrow>
         isinstance e [RequestException, JSONDecodeError, KeyError] \<longrightarrow>
         WebSearchTool_search env query =
           (Inr (PStr fallback_text),
            [HttpGet (search_url query) 10, LogError (''Web search error: '' @ exn_str e)]))
   \<and> (\<forall>response e. requests_get env (search_url query) 10 = Inr response \<longrightarrow>
         (raise_for_status response = Some e
          \<or> raise_for_status response = None \<and> json response = Inl e) \<longrightarrow>
         isinstance e [RequestException, JSONDecodeError, KeyError] \<longrightarrow>
         WebSearchTool_search env query =
           (Inr (PStr fallback_text),
            [HttpGet (search_url query) 10, LogError (''Web search error: '' @ exn_str e)]))
   \<and> (\<forall>response kvs. requests_get env (search_url query) 10 = Inr response \<longrightarrow>
         raise_for_status response = None \<longrightarrow> json response = Inr (PDict kvs) \<longrightarrow>
         WebSearchTool_search env query =
           (Inr (case map_of kvs ''AbstractText'' of
                   None \<Rightarrow> PStr fallback_text
                 | Some abstract \<Rightarrow> if truthy abstract then abstract else PStr fallback_text),
            [HttpGet (search_url query) 10]))
   \<and> (\<forall>e. fst (WebSearchTool_search env query) = Inl e \<longrightarrow>
         \<not> isinstance e [RequestException, JSONDecodeError, KeyError])
   \<and> fallback_text = ''Unable to fetch latest information. Using cached data instead.''"
proof (intro conjI allI impI)
  fix e
  assume "requests_get env (search_url query) 10 = Inl e"
    and "isinstance e [RequestException, JSONDecodeError, KeyError]"
  then show "WebSearchTool_search env query =
           (Inr (PStr fallback_text),
            [HttpGet (search_url query) 10, LogError (''Web search error: '' @ exn_str e)])"
    by (simp add: WebSearchTool_search_def run_request_raises)
next
  fix response e
  assume r: "requests_get env (search_url query) 10 = Inr response"
    and d: "raise_for_status response = Some e
          \<or> raise_for_status response = None \<and> json response = Inl e"
    and i: "isinstance e [RequestException, JSONDecodeError, KeyError]"
  from d show "WebSearchTool_search env query =
           (Inr (PStr fallback_text),
            [HttpGet (search_url query) 10, LogError (''Web search error: '' @ exn_str e)])"
  proof
    assume "raise_for_status response = Some e"
    with r i show ?thesis
      by (simp add: WebSearchTool_search_def run_status_raises)
  next
    assume "raise_for_status response = None \<and> json response = Inl e"
    with r i show ?thesis
      by (simp add: WebSearchTool_search_def run_json_raises)
  qed
next
  fix response kvs
  assume r: "requests_get env (search_url query) 10 = Inr response"
    and n: "raise_for_status response = None"
    and j: "json response = Inr (PDict kvs)"
  show "WebSearchTool_search env query =
           (Inr (case map_of kvs ''AbstractText'' of
                   None \<Rightarrow> PStr fallback_text
                 | Some abstract \<Rightarrow> if truthy abstract then abstract else PStr fallback_text),
            [HttpGet (search_url query) 10])"
  proof (cases "map_of kvs ''AbstractText''")
    case None
    then have "py_get (PDict kvs) ''AbstractText'' = Inr PNone" by simp
    from run_abstract [OF r n j this] None show ?thesis
      by (simp add: WebSearchTool_search_def)
  next
    case (Some abstract)
    then have "py_get (PDict kvs) ''AbstractText'' = Inr abstract" by simp
    from run_abstract [OF r n j this] Some show ?thesis
      by (simp add: WebSearchTool_search_def)
  qed
next
  fix e
  assume h: "fst (WebSearchTool_search env query) = Inl e"
  show "\<not> isinstance e [RequestException, JSONDecodeError, KeyError]"
  proof (cases rule: run_cases [of env query])
    case (request_raises e')
    with h show ?thesis
      by (simp add: WebSearchTool_search_def run_request_raises split: if_splits)
  next
    case (status_raises response e')
    with h show ?thesis
      by (simp add: WebSearchTool_search_def run_status_raises split: if_splits)
  next
    case (json_raises response e')
    with h show ?thesis
      by (simp add: WebSearchTool_search_def run_json_raises split: if_splits)
  next
    case (not_dict response data e')
    from not_dict(4) have "exn_cls e' = AttributeError"
      by (cases data) (auto split: option.splits)
    with h not_dict show ?thesis
      by (simp add: WebSearchTool_search_def run_not_dict issubclass_def)
  next
    case (abstract response data abstract)
    with h show ?thesis
      by (simp add: WebSearchTool_search_def run_abstract)
  qed
next
  show "fallback_text = ''Unable to fetch latest information. Using cached data instead.''"
    by (simp add: fallback_text_def)
qed

theorem search_live_or_fallback_witness:
  "WebSearchTool_search env_lookup_timeout ''AI in marketing'' =
     (Inr (PStr ''Unable to fetch latest information. Using cached data instead.''),
      [HttpGet ''https://api.duckduckgo.com/?q=AI in marketing&format=json'' 10,
       LogError ''Web search error: Read timed out.''])
   \<and> WebSearchTool_search env_lookup_no_abstract ''AI in marketing'' =
     (Inr (PStr ''Unable to fetch latest information. Using cached data instead.''),
      [HttpGet ''https://api.duckduckgo.com/?q=AI in marketing&format=json'' 10])
   \<and> WebSearchTool_search env_ok ''AI in marketing'' =
     (Inr (PStr ''AI spending rose in 2024.''),
      [HttpGet ''https://api.duckduckgo.com/?q=AI in marketing&format=json'' 10])"
proof (intro conjI)
  have g: "requests_get env_lookup_timeout (search_url ''AI in marketing'') 10 =
      Inl (Exn RequestException ''Read timed out.'')"
    by (simp add: env_defs)
  have i: "isinstance (Exn RequestException ''Read timed out.'')
      [RequestException, JSONDecodeError, KeyError]"
    by (simp add: issubclass_def)
  from search_live_or_fallback [of env_lookup_timeout "''AI in marketing''"] g i
  show "WebSearchTool_search env_lookup_timeout ''AI in marketing'' =
     (Inr (PStr ''Unable to fetch latest information. Using cached data instead.''),
      [HttpGet ''https://api.duckduckgo.com/?q=AI in marketing&format=json'' 10,
       LogError ''Web search error: Read timed out.''])"
    by (simp add: search_url_def issubclass_def fallback_text_def)
next
  have g: "requests_get env_lookup_no_abstract (search_url ''AI in marketing'') 10 =
      Inr \<lparr>raise_for_status = None, json = Inr (PDict [(''Heading'', PStr ''AI'')])\<rparr>"
    by (simp add: env_defs)
  from search_live_or_fallback [of env_lookup_no_abstract "''AI in marketing''"] g
  show "WebSearchTool_search env_lookup_no_abstract ''AI in marketing'' =
     (Inr (PStr ''Unable to fetch latest information. Using cached data instead.''),
      [HttpGet ''https://api.duckduckgo.com/?q=AI in marketing&format=json'' 10])"
    by (simp add: search_url_def issubclass_def fallback_text_def)
next
  have g: "requests_get env_ok (search_url ''AI in marketing'') 10 =
      Inr \<lparr>raise_for_status = None,
           json = Inr (PDict [(''AbstractText'', PStr ''AI spending rose in 2024.'')])\<rparr>"
    by (simp add: env_defs)
  from search_live_or_fallback [of env_ok "''AI in marketing''"] g
  show "WebSearchTool_search env_ok ''AI in marketing'' =
     (Inr (PStr ''AI spending rose in 2024.''),
      [HttpGet ''https://api.duckduckgo.com/?q=AI in marketing&format=json'' 10])"
    by (simp add: search_url_def issubclass_def fallback_text_def)
qed

theorem search_raises_counterexample:
  "WebSearchTool_search env_lookup_array ''AI in marketing'' =
     (Inl (Exn AttributeError (quoted ''list'' @ '' object has no attribute '' @ quoted ''get'')),
      [HttpGet ''https://api.duckduckgo.com/?q=AI in marketing&format=json'' 10])"
  by (simp add: WebSearchTool_search_def WebSearchTool_run_def WebSearchTool_fallback_search_def
      env_defs search_url_def res_defs issubclass_def)

theorem fallback_search_always_first_sentence_witness:
  "fst (WebSearchTool_search env_lookup_abstract_unavailable ''AI in marketing'') =
     Inr (PStr unavailable_text)
   \<and> (\<exists>response data.
        requests_get env_lookup_abstract_unavailable (search_url ''AI in marketing'') 10
          = Inr response
        \<and> json response = Inr data
        \<and> py_get data ''AbstractText'' = Inr (PStr unavailable_text))"
proof -
  have h: "fst (WebSearchTool_search env_lookup_abstract_unavailable ''AI in marketing'') =
     Inr (PStr unavailable_text)"
    by (simp add: WebSearchTool_search_def WebSearchTool_run_def
        WebSearchTool_fallback_search_def env_defs search_url_def res_defs unavailable_text_def)
  with fallback_search_always_first_sentence
    [of "''AI in marketing''" env_lookup_abstract_unavailable]
  show ?thesis by blast
qed

section \<open>Composing the post\<close>

lemma strip_Nil_iff: "strip s = [] \<longleftrightarrow> list_all isspace s"
proof
  assume "strip s = []"
  then have "dropWhile isspace (rev (dropWhile isspace s)) = []"
    by (simp only: strip_def rev_is_Nil_conv)
  then have a: "\<forall>c\<in>set (dropWhile isspace s). isspace c"
    by (metis dropWhile_eq_Nil_conv set_rev)
  have "dropWhile isspace s = []"
  proof (rule ccontr)
    assume n: "dropWhile isspace s \<noteq> []"
    then have "\<not> isspace (hd (dropWhile isspace s))" by (rule hd_dropWhile)
    moreover from n have "hd (dropWhile isspace s) \<in> set (dropWhile isspace s)"
      by (rule hd_in_set)
    ultimately show False using a by blast
  qed
  then have "\<forall>c\<in>set s. isspace c" by (simp only: dropWhile_eq_Nil_conv)
  then show "list_all isspace s" by (simp only: list_all_iff)
next
  assume "list_all isspace s"
  then have "\<forall>c\<in>set s. isspace c" by (simp only: list_all_iff)
  then have "dropWhile isspace s = []" by (simp only: dropWhile_eq_Nil_conv)
  then show "strip s = []"
    unfolding strip_def by (metis dropWhile.simps(1) rev.simps(1))
qed








section \<open>The latest information\<close>

lemma get_latest_info_eq:
  "LinkedInPostGenerator_get_latest_info env self topic =
     (case agent_run env (''Find recent updates or insights on '' @ topic) of
        Inr info \<Rightarrow> (Inr info, [AgentRun (''Find recent updates or insights on '' @ topic)])
      | Inl e \<Rightarrow>
          if isinstance e [ValueError, TypeError, KeyError]
          then (Inr (agent_fallback topic),
                [AgentRun (''Find recent updates or insights on '' @ topic),
                 LogWarning (''Agent execution error: '' @ exn_str e)])
          else (Inl e, [AgentRun (''Find recent updates or insights on '' @ topic)]))"
  by (simp add: LinkedInPostGenerator_get_latest_info_def res_defs split: sum.splits)

text \<open>
  Claim C1, as amended. For every topic, \<^verbatim>\<open>_get_latest_info\<close> runs the agent once. When
  the agent returns, its answer is returned. When the agent raises a value, type or key
  error, the error is caught, one warning is logged and the templated fallback is
  returned, which starts with ``Based on industry trends'' and names the topic. An error of
  any other class is not caught and reaches the caller.
\<close>

theorem get_latest_info_outcomes:
  "(\<forall>info. agent_run env (''Find recent updates or insights on '' @ topic) = Inr info \<longrightarrow>
       LinkedInPostGenerator_get_latest_info env self topic =
         (Inr info, [AgentRun (''Find recent updates or insights on '' @ topic)]))
   \<and> (\<forall>e. agent_run env (''Find recent updates or insights on '' @ topic) = Inl e \<longrightarrow>
       isinstance e [ValueError, TypeError, KeyError] \<longrightarrow>
       LinkedInPostGenerator_get_latest_info env self topic =
         (Inr (agent_fallback topic),
          [AgentRun (''Find recent updates or insights on '' @ topic),
           LogWarning (''Agent execution error: '' @ exn_str e)]))
   \<and> (\<forall>e. agent_run env (''Find recent updates or insights on '' @ topic) = Inl e \<longrightarrow>
       \<not> isinstance e [ValueError, TypeError, KeyError] \<longrightarrow>
       LinkedInPostGenerator_get_latest_info env self topic =
         (Inl e, [AgentRun (''Find recent updates or insights on '' @ topic)]))
   \<and> agent_fallback topic =
       ''Based on industry trends and analysis, here are key insights about '' @ topic @ ''...''
   \<and> take 24 (agent_fallback topic) = ''Based on industry trends''"
  by (simp add: get_latest_info_eq agent_fallback_def)

theorem get_latest_info_outcomes_witness:
  "LinkedInPostGenerator_get_latest_info env_agent_value_error generator_ok ''AI in marketing'' =
     (Inr ''Based on industry trends and analysis, here are key insights about AI in marketing...'',
      [AgentRun ''Find recent updates or insights on AI in marketing'',
       LogWarning ''Agent execution error: Could not parse LLM output''])"
proof -
  have a: "agent_run env_agent_value_error
      (''Find recent updates or insights on '' @ ''AI in marketing'') =
      Inl (Exn ValueError ''Could not parse LLM output'')"
    by (simp add: env_defs)
  have i: "isinstance (Exn ValueError ''Could not parse LLM output'')
      [ValueError, TypeError, KeyError]"
    by (simp add: issubclass_def)
  from get_latest_info_outcomes [of env_agent_value_error "''AI in marketing''" generator_ok] a i
  show ?thesis by (simp add: agent_fallback_def issubclass_def)
qed

theorem get_latest_info_raises_counterexample:
  "LinkedInPostGenerator_get_latest_info env_agent_provider_error generator_ok
     ''AI in marketing'' =
     (Inl (Exn Exception ''503 Service Unavailable''),
      [AgentRun ''Find recent updates or insights on AI in marketing''])"
  by (simp add: get_latest_info_eq env_defs issubclass_def)

section \<open>Errors in the generation of a post\<close>

lemma get_latest_info_raises:
  assumes "LinkedInPostGenerator_get_latest_info env self topic = (Inl e, evs)"
  shows "\<not> isinstance e [ValueError, TypeError, KeyError]"
  using assms unfolding get_latest_info_eq
  by (auto split: sum.splits if_splits)

lemma generate_post_eq:
  "LinkedInPostGenerator_generate_post env self topic tone audience =
     (case LinkedInPostGenerator_get_latest_info env self topic of
        (Inl e, evs1) \<Rightarrow> (Inl e, evs1)
      | (Inr info, evs1) \<Rightarrow>
          (case PostGenerator_generate env (post_generator self) topic tone audience info of
             (Inr post, evs2) \<Rightarrow> (Inr post, evs1 @ evs2)
           | (Inl e, evs2) \<Rightarrow>
               if isinstance e [ValueError, TypeError, KeyError]
               then (Inl e, evs1 @ evs2 @ [LogError (''Post generation error: '' @ exn_str e)])
               else (Inl e, evs1 @ evs2)))"
proof (cases "LinkedInPostGenerator_get_latest_info env self topic")
  case (Pair r evs1)
  show ?thesis
  proof (cases r)
    case (Inl e)
    with Pair have "LinkedInPostGenerator_get_latest_info env self topic = (Inl e, evs1)"
      by simp
    then have "\<not> isinstance e [ValueError, TypeError, KeyError]"
      by (rule get_latest_info_raises)
    with Pair Inl show ?thesis
      by (simp add: LinkedInPostGenerator_generate_post_def res_defs)
  next
    case (Inr info)
    with Pair show ?thesis
      by (simp add: LinkedInPostGenerator_generate_post_def res_defs
          split: sum.splits prod.splits)
  qed
qed

lemma agent_runs_append: "agent_runs (xs @ ys) = agent_runs xs + agent_runs ys"
  by (induction xs rule: agent_runs.induct) simp_all

lemma chain_runs_append: "chain_runs (xs @ ys) = chain_runs xs + chain_runs ys"
  by (induction xs rule: chain_runs.induct) simp_all

lemma get_latest_info_runs:
  "agent_runs (snd (LinkedInPostGenerator_get_latest_info env self topic)) = 1
   \<and> chain_runs (snd (LinkedInPostGenerator_get_latest_info env self topic)) = 0"
  by (simp add: get_latest_info_eq split: sum.splits)

lemma generate_runs:
  "agent_runs (snd (PostGenerator_generate env pg topic tone audience info)) = 0
   \<and> chain_runs (snd (PostGenerator_generate env pg topic tone audience info)) \<le> 1"
  by (simp add: PostGenerator_generate_def res_defs split: sum.splits option.splits)


lemma generate_post_runs:
  "agent_runs (snd (LinkedInPostGenerator_generate_post env self topic tone audience)) = 1
   \<and> chain_runs (snd (LinkedInPostGenerator_generate_post env self topic tone audience)) \<le> 1"
proof (cases "LinkedInPostGenerator_get_latest_info env self topic")
  case (Pair r1 evs1)
  with get_latest_info_runs [of env self topic]
  have a: "agent_runs evs1 = 1" and c: "chain_runs evs1 = 0" by simp_all
  show ?thesis
  proof (cases r1)
    case (Inl e)
    with Pair a c show ?thesis by (simp add: generate_post_eq)
  next
    case (Inr info)
    show ?thesis
    proof (cases "PostGenerator_generate env (post_generator self) topic tone audience info")
      case g: (Pair r2 evs2)
      with generate_runs [of env "post_generator self" topic tone audience info]
      have a2: "agent_runs evs2 = 0" and c2: "chain_runs evs2 \<le> 1" by simp_all
      from Pair Inr g a c a2 c2 show ?thesis
        by (cases r2) (simp_all add: generate_post_eq agent_runs_append chain_runs_append)
    qed
  qed
qed

text \<open>
  Claim C6, as amended. A value, type or key error of the agent never makes
  \<^verbatim>\<open>generate_post\<close> fail: \<^verbatim>\<open>_get_latest_info\<close> absorbs it and the fallback text is
  used. A value, type or key error raised in \<^verbatim>\<open>PostGenerator.generate\<close> is logged with one
  error line and the same exception is raised again, unwrapped. An error of any other
  class leaves \<^verbatim>\<open>generate_post\<close> unchanged and unlogged. There is one attempt: the agent is
  run once and the generation chain at most once.
\<close>

theorem generate_post_error_handling:
  "(\<forall>e. agent_run env (''Find recent updates or insights on '' @ topic) = Inl e \<longrightarrow>
       isinstance e [ValueError, TypeError, KeyError] \<longrightarrow>
       LinkedInPostGenerator_generate_post env self topic tone audience =
         (case PostGenerator_generate env (post_generator self) topic tone audience
                 (agent_fallback topic) of
            (Inr post, evs) \<Rightarrow>
              (Inr post,
               [AgentRun (''Find recent updates or insights on '' @ topic),
                LogWarning (''Agent execution error: '' @ exn_str e)] @ evs)
          | (Inl e', evs) \<Rightarrow>
              (Inl e',
               [AgentRun (''Find recent updates or insights on '' @ topic),
                LogWarning (''Agent execution error: '' @ exn_str e)] @ evs
               @ (if isinstance e' [ValueError, TypeError, KeyError]
                  then [LogError (''Post generation error: '' @ exn_str e')] else []))))
   \<and> (\<forall>info evs1 e evs2.
       LinkedInPostGenerator_get_latest_info env self topic = (Inr info, evs1) \<longrightarrow>
       PostGenerator_generate env (post_generator self) topic tone audience info
         = (Inl e, evs2) \<longrightarrow>
       LinkedInPostGenerator_generate_post env self topic tone audience =
         (Inl e, evs1 @ evs2
            @ (if isinstance e [ValueError, TypeError, KeyError]
               then [LogError (''Post generation error: '' @ exn_str e)] else [])))
   \<and> (\<forall>e evs1.
       LinkedInPostGenerator_get_latest_info env self topic = (Inl e, evs1) \<longrightarrow>
       \<not> isinstance e [ValueError, TypeError, KeyError]
       \<and> LinkedInPostGenerator_generate_post env self topic tone audience = (Inl e, evs1))
   \<and> agent_runs (snd (LinkedInPostGenerator_generate_post env self topic tone audience)) = 1
   \<and> chain_runs (snd (LinkedInPostGenerator_generate_post env self topic tone audience)) \<le> 1"
proof (intro conjI allI impI)
  fix e
  assume "agent_run env (''Find recent updates or insights on '' @ topic) = Inl e"
    and "isinstance e [ValueError, TypeError, KeyError]"
  then have "LinkedInPostGenerator_get_latest_info env self topic =
      (Inr (agent_fallback topic),
       [AgentRun (''Find recent updates or insights on '' @ topic),
        LogWarning (''Agent execution error: '' @ exn_str e)])"
    by (simp add: get_latest_info_eq)
  then show "LinkedInPostGenerator_generate_post env self topic tone audience =
         (case PostGenerator_generate env (post_generator self) topic tone audience
                 (agent_fallback topic) of
            (Inr post, evs) \<Rightarrow>
              (Inr post,
               [AgentRun (''Find recent updates or insights on '' @ topic),
                LogWarning (''Agent execution error: '' @ exn_str e)] @ evs)
          | (Inl e', evs) \<Rightarrow>
              (Inl e',
               [AgentRun (''Find recent updates or insights on '' @ topic),
                LogWarning (''Agent execution error: '' @ exn_str e)] @ evs
               @ (if isinstance e' [ValueError, TypeError, KeyError]
                  then [LogError (''Post generation error: '' @ exn_str e')] else [])))"
    by (simp add: generate_post_eq split: prod.splits sum.splits)
next
  fix info evs1 e evs2
  assume "LinkedInPostGenerator_get_latest_info env self topic = (Inr info, evs1)"
    and "PostGenerator_generate env (post_generator self) topic tone audience info
         = (Inl e, evs2)"
  then show "LinkedInPostGenerator_generate_post env self topic tone audience =
         (Inl e, evs1 @ evs2
            @ (if isinstance e [ValueError, TypeError, KeyError]
               then [LogError (''Post generation error: '' @ exn_str e)] else []))"
    by (simp add: generate_post_eq)
next
  fix e evs1
  assume h: "LinkedInPostGenerator_get_latest_info env self topic = (Inl e, evs1)"
  then show "\<not> isinstance e [ValueError, TypeError, KeyError]"
    by (rule get_latest_info_raises)
  from h show "LinkedInPostGenerator_generate_post env self topic tone audience = (Inl e, evs1)"
    by (simp add: generate_post_eq)
next
  show "agent_runs (snd (LinkedInPostGenerator_generate_post env self topic tone audience)) = 1"
    by (simp add: generate_post_runs)
next
  show "chain_runs (snd (LinkedInPostGenerator_generate_post env self topic tone audience)) \<le> 1"
    using generate_post_runs [of env self topic tone audience] by blast
qed


theorem generate_post_error_handling_witness:
  "LinkedInPostGenerator_generate_post env_chain_value_error generator_ok
     ''AI in marketing'' ''professional'' ''marketers'' =
     (Inl (Exn ValueError ''Gemini returned no candidates: finish_reason SAFETY''),
      [AgentRun ''Find recent updates or insights on AI in marketing'',
       SimilaritySearch ''AI in marketing'' 3,
       ChainRun [(''topic'', ''AI in marketing''), (''tone'', ''professional''),
                 (''audience'', ''marketers''),
                 (''latest_info'', ''Marketers adopt AI assistants.''),
                 (''context'', ''AI helps in personalized marketing campaigns and customer segmentation. Latest trends in AI for digital marketing and social media optimization. Data-driven marketing strategies using machine learning algorithms.'')],
       LogError ''Post generation error: Gemini returned no candidates: finish_reason SAFETY''])"
proof -
  have a: "LinkedInPostGenerator_get_latest_info env_chain_value_error generator_ok
      ''AI in marketing'' =
      (Inr ''Marketers adopt AI assistants.'',
       [AgentRun ''Find recent updates or insights on AI in marketing''])"
    by (simp add: pipeline_defs)
  have b: "PostGenerator_generate env_chain_value_error (post_generator generator_ok)
      ''AI in marketing'' ''professional'' ''marketers'' ''Marketers adopt AI assistants.'' =
      (Inl (Exn ValueError ''Gemini returned no candidates: finish_reason SAFETY''),
       [SimilaritySearch ''AI in marketing'' 3,
        ChainRun [(''topic'', ''AI in marketing''), (''tone'', ''professional''),
                  (''audience'', ''marketers''),
                  (''latest_info'', ''Marketers adopt AI assistants.''),
                  (''context'', ''AI helps in personalized marketing campaigns and customer segmentation. Latest trends in AI for digital marketing and social media optimization. Data-driven marketing strategies using machine learning algorithms.'')]])"
    by (simp add: pipeline_defs)
  from generate_post_error_handling [of env_chain_value_error "''AI in marketing''"
      generator_ok "''professional''" "''marketers''"] a b
  show ?thesis by (simp add: issubclass_def)
qed

theorem generate_post_agent_error_counterexample:
  "LinkedInPostGenerator_generate_post env_agent_value_error generator_ok
     ''AI in marketing'' ''professional'' ''marketers'' =
     (Inr ''AI is reshaping marketing. #AI'',
      [AgentRun ''Find recent updates or insights on AI in marketing'',
       LogWarning ''Agent execution error: Could not parse LLM output'',
       SimilaritySearch ''AI in marketing'' 3,
       ChainRun [(''topic'', ''AI in marketing''), (''tone'', ''professional''),
                 (''audience'', ''marketers''),
                 (''latest_info'', ''Based on industry trends and analysis, here are key insights about AI in marketing...''),
                 (''context'', ''AI helps in personalized marketing campaigns and customer segmentation. Latest trends in AI for digital marketing and social media optimization. Data-driven marketing strategies using machine learning algorithms.'')]])"
  by (simp add: pipeline_defs)

section \<open>The post that is returned\<close>

text \<open>
  Claim C2, as amended. Whenever \<^verbatim>\<open>generate_post\<close> returns, what it returns is the output of
  the generation model with the whitespace at both ends removed; it is the empty string
  exactly when the model's output is empty or all whitespace. No check for emptiness is
  made, and an error is raised as it is, under no class of its own.
\<close>

theorem generate_post_returns_stripped_output:
  assumes "fst (LinkedInPostGenerator_generate_post env self topic tone audience) = Inr post"
  shows "\<exists>latest_info context out.
      chain_run env [(''topic'', topic), (''tone'', tone), (''audience'', audience),
                     (''latest_info'', latest_info), (''context'', context)] = Inr out
      \<and> post = strip out \<and> (post = [] \<longleftrightarrow> list_all isspace out)"
proof -
  obtain r1 evs1 where g1: "LinkedInPostGenerator_get_latest_info env self topic = (r1, evs1)"
    by (cases "LinkedInPostGenerator_get_latest_info env self topic")
  from assms g1 obtain info where r1: "r1 = Inr info"
    by (cases r1) (simp_all add: generate_post_eq)
  obtain r2 evs2 where
    g2: "PostGenerator_generate env (post_generator self) topic tone audience info = (r2, evs2)"
    by (cases "PostGenerator_generate env (post_generator self) topic tone audience info")
  from assms g1 r1 g2 have r2: "r2 = Inr post"
    by (cases r2) (simp_all add: generate_post_eq split: if_splits)
  from g2 r2 obtain ctx out where
    "chain_run env [(''topic'', topic), (''tone'', tone), (''audience'', audience),
                    (''latest_info'', info), (''context'', ctx)] = Inr out"
    and "post = strip out"
    by (auto simp: PostGenerator_generate_def res_defs split: option.splits sum.splits)
  then show ?thesis using strip_Nil_iff [of out] by blast
qed

theorem generate_post_returns_stripped_output_witness:
  "fst (LinkedInPostGenerator_generate_post env_ok generator_ok
          ''AI in marketing'' ''professional'' ''marketers'') =
     Inr ''AI is reshaping marketing. #AI''
   \<and> (\<exists>latest_info context out.
        chain_run env_ok [(''topic'', ''AI in marketing''), (''tone'', ''professional''),
                          (''audience'', ''marketers''), (''latest_info'', latest_info),
                          (''context'', context)] = Inr out
        \<and> ''AI is reshaping marketing. #AI'' = strip out
        \<and> (''AI is reshaping marketing. #AI'' = [] \<longleftrightarrow> list_all isspace out))"
proof -
  have h: "fst (LinkedInPostGenerator_generate_post env_ok generator_ok
          ''AI in marketing'' ''professional'' ''marketers'') =
     Inr ''AI is reshaping marketing. #AI''"
    by (simp add: pipeline_defs)
  from h generate_post_returns_stripped_output [OF h] show ?thesis by (rule conjI)
qed

theorem generate_post_empty_counterexample:
  "LinkedInPostGenerator_generate_post env_blank_output generator_ok
     ''AI in marketing'' ''professional'' ''marketers'' =
     (Inr [],
      [AgentRun ''Find recent updates or insights on AI in marketing'',
       SimilaritySearch ''AI in marketing'' 3,
       ChainRun [(''topic'', ''AI in marketing''), (''tone'', ''professional''),
                 (''audience'', ''marketers''),
                 (''latest_info'', ''Marketers adopt AI assistants.''),
                 (''context'', ''AI helps in personalized marketing campaigns and customer segmentation. Latest trends in AI for digital marketing and social media optimization. Data-driven marketing strategies using machine learning algorithms.'')]])"
  by (simp add: pipeline_defs)

section \<open>The shape of the route\<close>

lemma py_get_raises:
  assumes "py_get data key = Inl e"
  shows "\<not> isinstance e [ValueError, TypeError, KeyError] \<and> py_get data key' = Inl e"
  using assms by (cases data) (auto simp: issubclass_def split: option.splits)

lemma py_get_returns:
  assumes "py_get data key = Inr v"
  shows "\<exists>v'. py_get data key' = Inr v'"
  using assms by (cases data) (auto split: option.splits)

lemma route_options:
  assumes "request_method req = ''OPTIONS''"
  shows "generate_post env req = (Inr \<lparr>body = [(''status'', ''ok'')], status = 200\<rparr>, [])"
  using assms by (simp add: generate_post_def res_defs)

lemma route_get_json_raises:
  assumes "request_method req \<noteq> ''OPTIONS''"
    and "get_json req = Inl e"
  shows "generate_post env req =
     (if isinstance e [ValueError, TypeError, KeyError]
      then (Inr \<lparr>body = [(''status'', ''error''), (''message'', exn_str e)], status = 500\<rparr>,
            [LogError (''API error: '' @ exn_str e)])
      else (Inl e, []))"
  using assms by (simp add: generate_post_def res_defs)

lemma route_not_object:
  assumes "request_method req \<noteq> ''OPTIONS''"
    and "get_json req = Inr data"
    and "py_get data ''topic'' = Inl e"
  shows "generate_post env req = (Inl e, [])"
proof -
  from assms(3) have "\<not> isinstance e [ValueError, TypeError, KeyError]"
    using py_get_raises by blast
  with assms show ?thesis by (simp add: generate_post_def res_defs)
qed

lemma route_invalid:
  assumes "request_method req \<noteq> ''OPTIONS''"
    and "get_json req = Inr data"
    and "py_get data ''topic'' = Inr topic"
    and "py_get data ''tone'' = Inr tone"
    and "py_get data ''audience'' = Inr audience"
    and "\<not> truthy topic \<or> \<not> truthy tone \<or> \<not> truthy audience"
  shows "generate_post env req =
     (Inr \<lparr>body = [(''status'', ''error''), (''message'', required_text)], status = 500\<rparr>,
      [LogError (''API error: '' @ required_text)])"
  using assms by (auto simp: generate_post_def res_defs issubclass_def)

lemma route_valid:
  assumes "request_method req \<noteq> ''OPTIONS''"
    and "get_json req = Inr data"
    and "py_get data ''topic'' = Inr topic"
    and "py_get data ''tone'' = Inr tone"
    and "py_get data ''audience'' = Inr audience"
    and "truthy topic" and "truthy tone" and "truthy audience"
  shows "generate_post env req =
     (case LinkedInPostGenerator_init env of
        (Inl e, evs0) \<Rightarrow>
          if isinstance e [ValueError, TypeError, KeyError]
          then (Inr \<lparr>body = [(''status'', ''error''), (''message'', exn_str e)], status = 500\<rparr>,
                evs0 @ [LogError (''API error: '' @ exn_str e)])
          else (Inl e, evs0)
      | (Inr generator, evs0) \<Rightarrow>
          (case LinkedInPostGenerator_generate_post env generator
                  (py_str topic) (py_str tone) (py_str audience) of
             (Inl e, evs) \<Rightarrow>
               if isinstance e [ValueError, TypeError, KeyError]
               then (Inr \<lparr>body = [(''status'', ''error''), (''message'', exn_str e)],
                          status = 500\<rparr>,
                     evs0 @ evs @ [LogError (''API error: '' @ exn_str e)])
               else (Inl e, evs0 @ evs)
           | (Inr post, evs) \<Rightarrow>
               (Inr \<lparr>body = [(''status'', ''success''), (''post'', post)], status = 200\<rparr>,
                evs0 @ evs)))"
  using assms
  by (simp add: generate_post_def res_defs split: prod.splits sum.splits)

lemma route_cases:
  obtains (preflight) "request_method req = ''OPTIONS''"
  | (no_json) e where "request_method req \<noteq> ''OPTIONS''" "get_json req = Inl e"
  | (not_object) data e where "request_method req \<noteq> ''OPTIONS''" "get_json req = Inr data"
      "py_get data ''topic'' = Inl e"
  | (invalid) data topic tone audience where "request_method req \<noteq> ''OPTIONS''"
      "get_json req = Inr data" "py_get data ''topic'' = Inr topic"
      "py_get data ''tone'' = Inr tone" "py_get data ''audience'' = Inr audience"
      "\<not> truthy topic \<or> \<not> truthy tone \<or> \<not> truthy audience"
  | (valid) data topic tone audience where "request_method req \<noteq> ''OPTIONS''"
      "get_json req = Inr data" "py_get data ''topic'' = Inr topic"
      "py_get data ''tone'' = Inr tone" "py_get data ''audience'' = Inr audience"
      "truthy topic" "truthy tone" "truthy audience"
proof (cases "request_method req = ''OPTIONS''")
  case True
  then show ?thesis by (rule preflight)
next
  case m: False
  show ?thesis
  proof (cases "get_json req")
    case (Inl e)
    with m show ?thesis by (rule no_json)
  next
    case j: (Inr data)
    show ?thesis
    proof (cases "py_get data ''topic''")
      case (Inl e)
      with m j show ?thesis by (rule not_object)
    next
      case t: (Inr topic)
      from py_get_returns [OF t] obtain tone where n: "py_get data ''tone'' = Inr tone"
        by blast
      from py_get_returns [OF t] obtain audience where
        a: "py_get data ''audience'' = Inr audience"
        by blast
      show ?thesis
      proof (cases "truthy topic \<and> truthy tone \<and> truthy audience")
        case True
        then have tt: "truthy topic" "truthy tone" "truthy audience" by simp_all
        from m j t n a tt show ?thesis by (rule valid)
      next
        case False
        then have "\<not> truthy topic \<or> \<not> truthy tone \<or> \<not> truthy audience" by simp
        with m j t n a show ?thesis by (rule invalid)
      qed
    qed
  qed
qed

lemma handled_outcome:
  assumes "r = (if isinstance e [ValueError, TypeError, KeyError]
      then (Inr \<lparr>body = [(''status'', ''error''), (''message'', exn_str e)], status = 500\<rparr>,
            evs @ [LogError (''API error: '' @ exn_str e)])
      else (Inl e, evs))"
  shows "(\<exists>e evs. isinstance e [ValueError, TypeError, KeyError]
        \<and> r = (Inr \<lparr>body = [(''status'', ''error''), (''message'', exn_str e)], status = 500\<rparr>,
             evs @ [LogError (''API error: '' @ exn_str e)]))
   \<or> (\<exists>e evs. \<not> isinstance e [ValueError, TypeError, KeyError] \<and> r = (Inl e, evs))"
proof (cases "isinstance e [ValueError, TypeError, KeyError]")
  case True
  with assms have "r =
      (Inr \<lparr>body = [(''status'', ''error''), (''message'', exn_str e)], status = 500\<rparr>,
       evs @ [LogError (''API error: '' @ exn_str e)])" by simp
  with True show ?thesis by blast
next
  case False
  with assms have "r = (Inl e, evs)" by simp
  with False show ?thesis by blast
qed

lemma route_outcomes:
  "(\<exists>resp evs. generate_post env req = (Inr resp, evs) \<and> status resp = 200)
   \<or> (\<exists>e evs. isinstance e [ValueError, TypeError, KeyError]
        \<and> generate_post env req =
            (Inr \<lparr>body = [(''status'', ''error''), (''message'', exn_str e)], status = 500\<rparr>,
             evs @ [LogError (''API error: '' @ exn_str e)]))
   \<or> (\<exists>e evs. \<not> isinstance e [ValueError, TypeError, KeyError]
        \<and> generate_post env req = (Inl e, evs))"
proof (cases rule: route_cases [of req])
  case preflight
  then show ?thesis by (simp add: route_options)
next
  case (no_json e)
  then have "generate_post env req =
     (if isinstance e [ValueError, TypeError, KeyError]
      then (Inr \<lparr>body = [(''status'', ''error''), (''message'', exn_str e)], status = 500\<rparr>,
            [] @ [LogError (''API error: '' @ exn_str e)])
      else (Inl e, []))"
    by (simp add: route_get_json_raises)
  from handled_outcome [OF this] show ?thesis by blast
next
  case (not_object data e)
  then have "generate_post env req = (Inl e, [])" by (rule route_not_object)
  moreover from not_object(3) have "\<not> isinstance e [ValueError, TypeError, KeyError]"
    using py_get_raises by blast
  ultimately show ?thesis by blast
next
  case (invalid data topic tone audience)
  have "isinstance (Exn ValueError required_text) [ValueError, TypeError, KeyError]"
    by (simp add: issubclass_def)
  moreover from invalid have "generate_post env req =
     (Inr \<lparr>body = [(''status'', ''error''),
                   (''message'', exn_str (Exn ValueError required_text))], status = 500\<rparr>,
      [] @ [LogError (''API error: '' @ exn_str (Exn ValueError required_text))])"
    by (simp add: route_invalid)
  ultimately show ?thesis by blast
next
  case (valid data topic tone audience)
  note v = route_valid [OF valid, of env]
  obtain r0 evs0 where i: "LinkedInPostGenerator_init env = (r0, evs0)"
    by (cases "LinkedInPostGenerator_init env")
  show ?thesis
  proof (cases r0)
    case (Inl e)
    with i v have "generate_post env req =
       (if isinstance e [ValueError, TypeError, KeyError]
        then (Inr \<lparr>body = [(''status'', ''error''), (''message'', exn_str e)], status = 500\<rparr>,
              evs0 @ [LogError (''API error: '' @ exn_str e)])
        else (Inl e, evs0))"
      by simp
    from handled_outcome [OF this] show ?thesis by blast
  next
    case (Inr generator)
    obtain r evs where g: "LinkedInPostGenerator_generate_post env generator
        (py_str topic) (py_str tone) (py_str audience) = (r, evs)"
      by (cases "LinkedInPostGenerator_generate_post env generator
        (py_str topic) (py_str tone) (py_str audience)")
    show ?thesis
    proof (cases r)
      case e: (Inl e)
      with i Inr g v have "generate_post env req =
         (if isinstance e [ValueError, TypeError, KeyError]
          then (Inr \<lparr>body = [(''status'', ''error''), (''message'', exn_str e)],
                     status = 500\<rparr>,
                (evs0 @ evs) @ [LogError (''API error: '' @ exn_str e)])
          else (Inl e, evs0 @ evs))"
        by simp
      from handled_outcome [OF this] show ?thesis by blast
    next
      case p: (Inr post)
      with i Inr g v show ?thesis by simp
    qed
  qed
qed


section \<open>Validation of the request\<close>

text \<open>
  Claim C7, as amended. When a request that is not a preflight has an object as its body
  and any of topic, tone and audience is absent from it or is the empty string, the route
  answers with exactly the error object whose message is ``Topic, tone, and audience are
  required''; its trace is the one log line of the route, so no index is built and neither
  the agent, the similarity search, the generation model nor the web search is called. A
  preflight request is answered with the object of status ``ok'' before anything is read,
  and a body that is not an object makes the first \<^verbatim>\<open>data.get\<close> raise an attribute error
  that the route does not handle; neither makes a call nor writes a line.
\<close>

theorem missing_field_fails_validation:
  "(\<forall>kvs. request_method req \<noteq> ''OPTIONS'' \<longrightarrow> get_json req = Inr (PDict kvs) \<longrightarrow>
       (map_of kvs ''topic'' = None \<or> map_of kvs ''topic'' = Some (PStr [])
        \<or> map_of kvs ''tone'' = None \<or> map_of kvs ''tone'' = Some (PStr [])
        \<or> map_of kvs ''audience'' = None \<or> map_of kvs ''audience'' = Some (PStr [])) \<longrightarrow>
       generate_post env req =
         (Inr \<lparr>body = [(''status'', ''error''),
                       (''message'', ''Topic, tone, and audience are required'')],
               status = 500\<rparr>,
          [LogError ''API error: Topic, tone, and audience are required'']))
   \<and> (request_method req = ''OPTIONS'' \<longrightarrow>
         generate_post env req = (Inr \<lparr>body = [(''status'', ''ok'')], status = 200\<rparr>, []))
   \<and> (\<forall>data. request_method req \<noteq> ''OPTIONS'' \<longrightarrow> get_json req = Inr data \<longrightarrow>
         (\<forall>kvs. data \<noteq> PDict kvs) \<longrightarrow>
         generate_post env req =
           (Inl (Exn AttributeError
              (quoted (type_name data) @ '' object has no attribute '' @ quoted ''get'')), []))"
proof (intro conjI allI impI)
  fix kvs
  assume m: "request_method req \<noteq> ''OPTIONS''"
    and j: "get_json req = Inr (PDict kvs)"
    and f: "map_of kvs ''topic'' = None \<or> map_of kvs ''topic'' = Some (PStr [])
        \<or> map_of kvs ''tone'' = None \<or> map_of kvs ''tone'' = Some (PStr [])
        \<or> map_of kvs ''audience'' = None \<or> map_of kvs ''audience'' = Some (PStr [])"
  define field where "field key = (case map_of kvs key of None \<Rightarrow> PNone | Some v \<Rightarrow> v)" for key
  have g: "py_get (PDict kvs) ''topic'' = Inr (field ''topic'')"
    "py_get (PDict kvs) ''tone'' = Inr (field ''tone'')"
    "py_get (PDict kvs) ''audience'' = Inr (field ''audience'')"
    by (simp_all add: field_def split: option.splits)
  from f have "\<not> truthy (field ''topic'') \<or> \<not> truthy (field ''tone'')
      \<or> \<not> truthy (field ''audience'')"
    by (auto simp: field_def)
  from route_invalid [OF m j g this, of env]
  show "generate_post env req =
         (Inr \<lparr>body = [(''status'', ''error''),
                       (''message'', ''Topic, tone, and audience are required'')],
               status = 500\<rparr>,
          [LogError ''API error: Topic, tone, and audience are required''])"
    by (simp add: required_text_def)
next
  assume "request_method req = ''OPTIONS''"
  then show "generate_post env req =
      (Inr \<lparr>body = [(''status'', ''ok'')], status = 200\<rparr>, [])"
    by (rule route_options)
next
  fix data
  assume m: "request_method req \<noteq> ''OPTIONS''"
    and j: "get_json req = Inr data"
    and n: "\<forall>kvs. data \<noteq> PDict kvs"
  from n have "py_get data ''topic'' =
      Inl (Exn AttributeError
        (quoted (type_name data) @ '' object has no attribute '' @ quoted ''get''))"
    by (cases data) simp_all
  from route_not_object [OF m j this]
  show "generate_post env req =
           (Inl (Exn AttributeError
              (quoted (type_name data) @ '' object has no attribute '' @ quoted ''get'')), [])" .
qed

theorem missing_field_fails_validation_witness:
  "generate_post env_ok req_empty_topic =
     (Inr \<lparr>body = [(''status'', ''error''),
                   (''message'', ''Topic, tone, and audience are required'')],
           status = 500\<rparr>,
      [LogError ''API error: Topic, tone, and audience are required''])
   \<and> generate_post env_ok req_no_tone =
     (Inr \<lparr>body = [(''status'', ''error''),
                   (''message'', ''Topic, tone, and audience are required'')],
           status = 500\<rparr>,
      [LogError ''API error: Topic, tone, and audience are required''])
   \<and> generate_post env_ok req_preflight =
     (Inr \<lparr>body = [(''status'', ''ok'')], status = 200\<rparr>, [])
   \<and> generate_post env_ok req_array_body =
     (Inl (Exn AttributeError
        (quoted ''list'' @ '' object has no attribute '' @ quoted ''get'')), [])"
proof (intro conjI)
  have a: "request_method req_empty_topic \<noteq> ''OPTIONS''"
    by (simp add: req_empty_topic_def)
  have b: "get_json req_empty_topic =
      Inr (PDict [(''topic'', PStr []), (''tone'', PStr ''professional''),
                  (''audience'', PStr ''marketers'')])"
    by (simp add: req_empty_topic_def)
  from missing_field_fails_validation [of req_empty_topic env_ok, THEN conjunct1,
      rule_format, OF a b]
  show "generate_post env_ok req_empty_topic =
     (Inr \<lparr>body = [(''status'', ''error''),
                   (''message'', ''Topic, tone, and audience are required'')],
           status = 500\<rparr>,
      [LogError ''API error: Topic, tone, and audience are required''])"
    by simp
  have c: "request_method req_no_tone \<noteq> ''OPTIONS''"
    by (simp add: req_no_tone_def)
  have d: "get_json req_no_tone =
      Inr (PDict [(''topic'', PStr ''AI in marketing''), (''audience'', PStr ''marketers'')])"
    by (simp add: req_no_tone_def)
  from missing_field_fails_validation [of req_no_tone env_ok, THEN conjunct1,
      rule_format, OF c d]
  show "generate_post env_ok req_no_tone =
     (Inr \<lparr>body = [(''status'', ''error''),
                   (''message'', ''Topic, tone, and audience are required'')],
           status = 500\<rparr>,
      [LogError ''API error: Topic, tone, and audience are required''])"
    by simp  have p: "request_method req_preflight = ''OPTIONS''"
    by (simp add: req_preflight_def)
  from missing_field_fails_validation [of req_preflight env_ok, THEN conjunct2,
      THEN conjunct1, rule_format, OF p]
  show "generate_post env_ok req_preflight =
     (Inr \<lparr>body = [(''status'', ''ok'')], status = 200\<rparr>, [])" .
  have m: "request_method req_array_body \<noteq> ''OPTIONS''"
    and j: "get_json req_array_body = Inr (PList [])"
    by (simp_all add: req_array_body_def)
  have n: "\<And>kvs. PList [] \<noteq> PDict kvs" by simp
  from missing_field_fails_validation [of req_array_body env_ok, THEN conjunct2,
      THEN conjunct2, rule_format, OF m j n]
  show "generate_post env_ok req_array_body =
     (Inl (Exn AttributeError
        (quoted ''list'' @ '' object has no attribute '' @ quoted ''get'')), [])"
    by simp
qed

theorem missing_field_not_validated_counterexample:
  "generate_post env_ok req_array_body =
     (Inl (Exn AttributeError
        (quoted ''list'' @ '' object has no attribute '' @ quoted ''get'')), [])
   \<and> generate_post env_ok req_preflight =
     (Inr \<lparr>body = [(''status'', ''ok'')], status = 200\<rparr>, [])"
  by (simp add: generate_post_def req_array_body_def req_preflight_def res_defs
      issubclass_def)


section \<open>The error response of the route\<close>

text \<open>
  Claim C4, as amended. Every response of the route that is not a success carries the text
  of the error that was caught, \<^verbatim>\<open>str(e)\<close>, as its message, with status 500, and the same
  text is the last line written to the log. The error is the one raised first: by
  \<^verbatim>\<open>get_json\<close>, by the validation (the fixed sentence), by the construction of the generator,
  or by \<^verbatim>\<open>generate_post\<close>; for the last three that text is whatever the failing component
  attached to its value, type or key error. An error of any other class is not answered
  by the route; it leaves the route as an exception.
\<close>

theorem error_response_carries_error_text:
  "(\<forall>resp. fst (generate_post env req) = Inr resp \<longrightarrow> status resp \<noteq> 200 \<longrightarrow>
       (\<exists>e evs. isinstance e [ValueError, TypeError, KeyError]
          \<and> resp = \<lparr>body = [(''status'', ''error''), (''message'', exn_str e)], status = 500\<rparr>
          \<and> snd (generate_post env req) = evs @ [LogError (''API error: '' @ exn_str e)]))
   \<and> (\<forall>e. fst (generate_post env req) = Inl e \<longrightarrow>
         \<not> isinstance e [ValueError, TypeError, KeyError])
   \<and> (\<forall>e. request_method req \<noteq> ''OPTIONS'' \<longrightarrow> get_json req = Inl e \<longrightarrow>
         generate_post env req =
           (if isinstance e [ValueError, TypeError, KeyError]
            then (Inr \<lparr>body = [(''status'', ''error''), (''message'', exn_str e)],
                       status = 500\<rparr>,
                  [LogError (''API error: '' @ exn_str e)])
            else (Inl e, [])))
   \<and> (\<forall>data topic tone audience.
         request_method req \<noteq> ''OPTIONS'' \<longrightarrow> get_json req = Inr data \<longrightarrow>
         py_get data ''topic'' = Inr topic \<longrightarrow> py_get data ''tone'' = Inr tone \<longrightarrow>
         py_get data ''audience'' = Inr audience \<longrightarrow>
         (\<not> truthy topic \<or> \<not> truthy tone \<or> \<not> truthy audience \<longrightarrow>
            generate_post env req =
              (Inr \<lparr>body = [(''status'', ''error''),
                            (''message'', ''Topic, tone, and audience are required'')],
                    status = 500\<rparr>,
               [LogError ''API error: Topic, tone, and audience are required'']))
         \<and> (truthy topic \<and> truthy tone \<and> truthy audience \<longrightarrow>
            generate_post env req =
              (case LinkedInPostGenerator_init env of
                 (Inl e, evs0) \<Rightarrow>
                   if isinstance e [ValueError, TypeError, KeyError]
                   then (Inr \<lparr>body = [(''status'', ''error''), (''message'', exn_str e)],
                              status = 500\<rparr>,
                         evs0 @ [LogError (''API error: '' @ exn_str e)])
                   else (Inl e, evs0)
               | (Inr generator, evs0) \<Rightarrow>
                   (case LinkedInPostGenerator_generate_post env generator
                           (py_str topic) (py_str tone) (py_str audience) of
                      (Inl e, evs) \<Rightarrow>
                        if isinstance e [ValueError, TypeError, KeyError]
                        then (Inr \<lparr>body = [(''status'', ''error''), (''message'', exn_str e)],
                                   status = 500\<rparr>,
                              evs0 @ evs @ [LogError (''API error: '' @ exn_str e)])
                        else (Inl e, evs0 @ evs)
                    | (Inr post, evs) \<Rightarrow>
                        (Inr \<lparr>body = [(''status'', ''success''), (''post'', post)],
                              status = 200\<rparr>,
                         evs0 @ evs)))))"
proof (intro conjI allI impI)
  fix resp
  assume "fst (generate_post env req) = Inr resp" and "status resp \<noteq> 200"
  note h = this
  from route_outcomes [of env req] consider
    (ok) resp' evs where "generate_post env req = (Inr resp', evs)" "status resp' = 200"
  | (err) e evs where "isinstance e [ValueError, TypeError, KeyError]"
      "generate_post env req =
         (Inr \<lparr>body = [(''status'', ''error''), (''message'', exn_str e)], status = 500\<rparr>,
          evs @ [LogError (''API error: '' @ exn_str e)])"
  | (exc) e evs where "generate_post env req = (Inl e, evs)"
    by blast
  then show "\<exists>e evs. isinstance e [ValueError, TypeError, KeyError]
          \<and> resp = \<lparr>body = [(''status'', ''error''), (''message'', exn_str e)], status = 500\<rparr>
          \<and> snd (generate_post env req) = evs @ [LogError (''API error: '' @ exn_str e)]"
  proof cases
    case ok
    with h show ?thesis by simp
  next
    case err
    from err(2) h(1) have "resp =
        \<lparr>body = [(''status'', ''error''), (''message'', exn_str e)], status = 500\<rparr>"
      by simp
    moreover from err(2) have "snd (generate_post env req) =
        evs @ [LogError (''API error: '' @ exn_str e)]"
      by simp
    ultimately show ?thesis using err(1) by blast
  next
    case exc
    with h show ?thesis by simp
  qed
next
  fix e
  assume "fst (generate_post env req) = Inl e"
  with route_outcomes [of env req]
  show "\<not> isinstance e [ValueError, TypeError, KeyError]"
    by (elim disjE exE conjE) simp_all
next
  fix e
  assume "request_method req \<noteq> ''OPTIONS''" and "get_json req = Inl e"
  then show "generate_post env req =
           (if isinstance e [ValueError, TypeError, KeyError]
            then (Inr \<lparr>body = [(''status'', ''error''), (''message'', exn_str e)],
                       status = 500\<rparr>,
                  [LogError (''API error: '' @ exn_str e)])
            else (Inl e, []))"
    by (rule route_get_json_raises)
next
  fix data topic tone audience
  assume a: "request_method req \<noteq> ''OPTIONS''" "get_json req = Inr data"
    "py_get data ''topic'' = Inr topic" "py_get data ''tone'' = Inr tone"
    "py_get data ''audience'' = Inr audience"
    and f: "\<not> truthy topic \<or> \<not> truthy tone \<or> \<not> truthy audience"
  from route_invalid [OF a f, of env]
  show "generate_post env req =
              (Inr \<lparr>body = [(''status'', ''error''),
                            (''message'', ''Topic, tone, and audience are required'')],
                    status = 500\<rparr>,
               [LogError ''API error: Topic, tone, and audience are required''])"
    by (simp add: required_text_def)
next
  fix data topic tone audience
  assume a: "request_method req \<noteq> ''OPTIONS''" "get_json req = Inr data"
    "py_get data ''topic'' = Inr topic" "py_get data ''tone'' = Inr tone"
    "py_get data ''audience'' = Inr audience"
    and t: "truthy topic \<and> truthy tone \<and> truthy audience"
  from t have tt: "truthy topic" "truthy tone" "truthy audience" by simp_all
  show "generate_post env req =
              (case LinkedInPostGenerator_init env of
                 (Inl e, evs0) \<Rightarrow>
                   if isinstance e [ValueError, TypeError, KeyError]
                   then (Inr \<lparr>body = [(''status'', ''error''), (''message'', exn_str e)],
                              status = 500\<rparr>,
                         evs0 @ [LogError (''API error: '' @ exn_str e)])
                   else (Inl e, evs0)
               | (Inr generator, evs0) \<Rightarrow>
                   (case LinkedInPostGenerator_generate_post env generator
                           (py_str topic) (py_str tone) (py_str audience) of
                      (Inl e, evs) \<Rightarrow>
                        if isinstance e [ValueError, TypeError, KeyError]
                        then (Inr \<lparr>body = [(''status'', ''error''), (''message'', exn_str e)],
                                   status = 500\<rparr>,
                              evs0 @ evs @ [LogError (''API error: '' @ exn_str e)])
                        else (Inl e, evs0 @ evs)
                    | (Inr post, evs) \<Rightarrow>
                        (Inr \<lparr>body = [(''status'', ''success''), (''post'', post)],
                              status = 200\<rparr>,
                         evs0 @ evs)))"
    by (rule route_valid [OF a tt])
qed

theorem error_response_carries_error_text_witness:
  "generate_post env_chain_value_error req_ok =
     (Inr \<lparr>body = [(''status'', ''error''),
                   (''message'', ''Gemini returned no candidates: finish_reason SAFETY'')],
           status = 500\<rparr>,
      [FaissFromTexts VectorDB_get_default_texts,
       LogInfo ''Vector database initialized successfully'',
       AgentRun ''Find recent updates or insights on AI in marketing'',
       SimilaritySearch ''AI in marketing'' 3,
       ChainRun [(''topic'', ''AI in marketing''), (''tone'', ''professional''),
                 (''audience'', ''marketers''),
                 (''latest_info'', ''Marketers adopt AI assistants.''),
                 (''context'', ''AI helps in personalized marketing campaigns and customer segmentation. Latest trends in AI for digital marketing and social media optimization. Data-driven marketing strategies using machine learning algorithms.'')],
       LogError ''Post generation error: Gemini returned no candidates: finish_reason SAFETY'',
       LogError ''API error: Gemini returned no candidates: finish_reason SAFETY''])
   \<and> generate_post env_index_value_error req_ok =
     (Inr \<lparr>body = [(''status'', ''error''),
                   (''message'',
                    ''Embedding model sentence-transformers/all-MiniLM-L6-v2 failed'')],
           status = 500\<rparr>,
      [FaissFromTexts VectorDB_get_default_texts,
       LogError ''Vector database initialization error: Embedding model sentence-transformers/all-MiniLM-L6-v2 failed'',
       LogError ''API error: Embedding model sentence-transformers/all-MiniLM-L6-v2 failed''])
   \<and> generate_post env_ok req_empty_topic =
     (Inr \<lparr>body = [(''status'', ''error''),
                   (''message'', ''Topic, tone, and audience are required'')],
           status = 500\<rparr>,
      [LogError ''API error: Topic, tone, and audience are required''])
   \<and> generate_post env_ok req_bad_json =
     (Inl (Exn Exception ''400 Bad Request: Failed to decode JSON object''), [])"
proof (intro conjI)
  have m: "request_method req_ok \<noteq> ''OPTIONS''" by (simp add: req_ok_def)
  have j: "get_json req_ok =
      Inr (PDict [(''topic'', PStr ''AI in marketing''), (''tone'', PStr ''professional''),
                  (''audience'', PStr ''marketers'')])"
    by (simp add: req_ok_def)
  let ?data = "PDict [(''topic'', PStr ''AI in marketing''), (''tone'', PStr ''professional''),
                      (''audience'', PStr ''marketers'')]"
  have t: "py_get ?data ''topic'' = Inr (PStr ''AI in marketing'')"
    and n: "py_get ?data ''tone'' = Inr (PStr ''professional'')"
    and a: "py_get ?data ''audience'' = Inr (PStr ''marketers'')"
    by simp_all
  have tt: "truthy (PStr ''AI in marketing'') \<and> truthy (PStr ''professional'')
      \<and> truthy (PStr ''marketers'')"
    by simp
  have i: "LinkedInPostGenerator_init env_chain_value_error =
      (Inr generator_ok,
       [FaissFromTexts VectorDB_get_default_texts,
        LogInfo ''Vector database initialized successfully''])"
    by (simp add: LinkedInPostGenerator_init_def VectorDB_initialize_def VectorDB_init_def
        generator_ok_def res_defs env_defs)
  have g: "LinkedInPostGenerator_generate_post env_chain_value_error generator_ok
      ''AI in marketing'' ''professional'' ''marketers'' =
     (Inl (Exn ValueError ''Gemini returned no candidates: finish_reason SAFETY''),
      [AgentRun ''Find recent updates or insights on AI in marketing'',
       SimilaritySearch ''AI in marketing'' 3,
       ChainRun [(''topic'', ''AI in marketing''), (''tone'', ''professional''),
                 (''audience'', ''marketers''),
                 (''latest_info'', ''Marketers adopt AI assistants.''),
                 (''context'', ''AI helps in personalized marketing campaigns and customer segmentation. Latest trends in AI for digital marketing and social media optimization. Data-driven marketing strategies using machine learning algorithms.'')],
       LogError ''Post generation error: Gemini returned no candidates: finish_reason SAFETY''])"
    by (simp add: pipeline_defs)
  from error_response_carries_error_text [of env_chain_value_error req_ok,
      THEN conjunct2, THEN conjunct2, THEN conjunct2, rule_format, OF m j t n a,
      THEN conjunct2, THEN mp, OF tt]
  show "generate_post env_chain_value_error req_ok =
     (Inr \<lparr>body = [(''status'', ''error''),
                   (''message'', ''Gemini returned no candidates: finish_reason SAFETY'')],
           status = 500\<rparr>,
      [FaissFromTexts VectorDB_get_default_texts,
       LogInfo ''Vector database initialized successfully'',
       AgentRun ''Find recent updates or insights on AI in marketing'',
       SimilaritySearch ''AI in marketing'' 3,
       ChainRun [(''topic'', ''AI in marketing''), (''tone'', ''professional''),
                 (''audience'', ''marketers''),
                 (''latest_info'', ''Marketers adopt AI assistants.''),
                 (''context'', ''AI helps in personalized marketing campaigns and customer segmentation. Latest trends in AI for digital marketing and social media optimization. Data-driven marketing strategies using machine learning algorithms.'')],
       LogError ''Post generation error: Gemini returned no candidates: finish_reason SAFETY'',
       LogError ''API error: Gemini returned no candidates: finish_reason SAFETY''])"
    by (simp add: i g issubclass_def)
  have i': "LinkedInPostGenerator_init env_index_value_error =
      (Inl (Exn ValueError ''Embedding model sentence-transformers/all-MiniLM-L6-v2 failed''),
       [FaissFromTexts VectorDB_get_default_texts,
        LogError ''Vector database initialization error: Embedding model sentence-transformers/all-MiniLM-L6-v2 failed''])"
    by (simp add: LinkedInPostGenerator_init_def VectorDB_initialize_def VectorDB_init_def
        res_defs env_defs issubclass_def)
  from error_response_carries_error_text [of env_index_value_error req_ok,
      THEN conjunct2, THEN conjunct2, THEN conjunct2, rule_format, OF m j t n a,
      THEN conjunct2, THEN mp, OF tt]
  show "generate_post env_index_value_error req_ok =
     (Inr \<lparr>body = [(''status'', ''error''),
                   (''message'',
                    ''Embedding model sentence-transformers/all-MiniLM-L6-v2 failed'')],
           status = 500\<rparr>,
      [FaissFromTexts VectorDB_get_default_texts,
       LogError ''Vector database initialization error: Embedding model sentence-transformers/all-MiniLM-L6-v2 failed'',
       LogError ''API error: Embedding model sentence-transformers/all-MiniLM-L6-v2 failed''])"
    by (simp add: i' issubclass_def)  have m': "request_method req_empty_topic \<noteq> ''OPTIONS''"
    and j': "get_json req_empty_topic =
      Inr (PDict [(''topic'', PStr []), (''tone'', PStr ''professional''),
                  (''audience'', PStr ''marketers'')])"
    by (simp_all add: req_empty_topic_def)
  let ?data' = "PDict [(''topic'', PStr []), (''tone'', PStr ''professional''),
                       (''audience'', PStr ''marketers'')]"
  have t': "py_get ?data' ''topic'' = Inr (PStr [])"
    and n': "py_get ?data' ''tone'' = Inr (PStr ''professional'')"
    and a': "py_get ?data' ''audience'' = Inr (PStr ''marketers'')"
    by simp_all
  have f: "\<not> truthy (PStr []) \<or> \<not> truthy (PStr ''professional'')
      \<or> \<not> truthy (PStr ''marketers'')"
    by simp
  from error_response_carries_error_text [of env_ok req_empty_topic,
      THEN conjunct2, THEN conjunct2, THEN conjunct2, rule_format, OF m' j' t' n' a',
      THEN conjunct1, THEN mp, OF f]
  show "generate_post env_ok req_empty_topic =
     (Inr \<lparr>body = [(''status'', ''error''),
                   (''message'', ''Topic, tone, and audience are required'')],
           status = 500\<rparr>,
      [LogError ''API error: Topic, tone, and audience are required''])" .
  have mb: "request_method req_bad_json \<noteq> ''OPTIONS''"
    and jb: "get_json req_bad_json =
      Inl (Exn Exception ''400 Bad Request: Failed to decode JSON object'')"
    by (simp_all add: req_bad_json_def)
  from error_response_carries_error_text [of env_ok req_bad_json,
      THEN conjunct2, THEN conjunct2, THEN conjunct1, rule_format, OF mb jb]
  show "generate_post env_ok req_bad_json =
     (Inl (Exn Exception ''400 Bad Request: Failed to decode JSON object''), [])"
    by (simp add: issubclass_def)
qed

theorem error_response_provider_text_counterexample:
  "fst (generate_post env_chain_value_error req_ok) =
     Inr \<lparr>body = [(''status'', ''error''),
                  (''message'', ''Gemini returned no candidates: finish_reason SAFETY'')],
          status = 500\<rparr>
   \<and> fst (generate_post env_ok req_empty_topic) =
     Inr \<lparr>body = [(''status'', ''error''),
                  (''message'', ''Topic, tone, and audience are required'')],
          status = 500\<rparr>"
  by (simp add: generate_post_def req_ok_def req_empty_topic_def required_text_def
      pipeline_defs)


section \<open>When the index is built\<close>












section \<open>The bound on the agent's loop\<close>








end
